theory Spec2Isabelle
  imports Main "HOL-Library.Word"
begin

section \<open>Bytes and C strings\<close>

text \<open>
  A \<^verbatim>\<open>std::string\<close> is a sequence of bytes: \<^typ>\<open>string\<close>. The bytes that the
  exporter treats specially are named once.
\<close>

abbreviation NUL :: char where "NUL \<equiv> CHR 0x00"
abbreviation TAB :: char where "TAB \<equiv> CHR 0x09"
abbreviation LF :: char where "LF \<equiv> CHR 0x0A"
abbreviation CR :: char where "CR \<equiv> CHR 0x0D"
abbreviation DQ :: char where "DQ \<equiv> CHR 0x22"
abbreviation BSL :: char where "BSL \<equiv> CHR 0x5C"

section \<open>Label escaping\<close>

text \<open>
  \<^verbatim>\<open>OtelExporter::escape_label_value\<close> (otel_exporter.cpp, lines 269-297): a loop over
  the bytes of \<open>value\<close> that appends to \<open>result\<close>; the \<^verbatim>\<open>switch\<close> is the chain of
  tests below, in the order of its \<^verbatim>\<open>case\<close> labels.
\<close>

fun escape_loop :: "string \<Rightarrow> string \<Rightarrow> string" where
  "escape_loop result [] = result"
| "escape_loop result (c # cs) =
     escape_loop
       (if c = BSL then result @ [BSL, BSL]
        else if c = DQ then result @ [BSL, DQ]
        else if c = LF then result @ [BSL, CHR ''n'']
        else if c = CR then result @ [BSL, CHR ''r'']
        else if c = TAB then result @ [BSL, CHR ''t'']
        else result @ [c])
       cs"

definition escape_label_value :: "string \<Rightarrow> string" where
  "escape_label_value v = escape_loop [] v"

text \<open>
  The escaping table in the words of the specification: backslash, double quote, newline,
  carriage return and tab have a two-byte escaped form, every other byte passes through.
\<close>

definition escaped_form :: "char \<Rightarrow> string" where
  "escaped_form c =
     (if c = BSL then [BSL, BSL]
      else if c = DQ then [BSL, DQ]
      else if c = LF then [BSL, CHR ''n'']
      else if c = CR then [BSL, CHR ''r'']
      else if c = TAB then [BSL, CHR ''t'']
      else [c])"

text \<open>
  Re-scanning an escaped text from the left: a backslash must be followed by one of the
  five escape letters (and the pair is skipped), and outside such a pair there is no
  double quote, newline, carriage return or tab.
\<close>

fun escaped_ok :: "string \<Rightarrow> bool" where
  "escaped_ok [] = True"
| "escaped_ok [c] = (c \<noteq> BSL \<and> c \<noteq> DQ \<and> c \<noteq> LF \<and> c \<noteq> CR \<and> c \<noteq> TAB)"
| "escaped_ok (c # d # ds) =
     (if c = BSL
      then (d = BSL \<or> d = DQ \<or> d = CHR ''n'' \<or> d = CHR ''r'' \<or> d = CHR ''t'') \<and> escaped_ok ds
      else c \<noteq> DQ \<and> c \<noteq> LF \<and> c \<noteq> CR \<and> c \<noteq> TAB \<and> escaped_ok (d # ds))"

text \<open>The inverse scan: it reads an escaped text back, and fails on a malformed one.\<close>

fun unescape :: "string \<Rightarrow> string option" where
  "unescape [] = Some []"
| "unescape [c] = (if c = BSL then None else Some [c])"
| "unescape (c # d # ds) =
     (if c = BSL
      then (if d = BSL then map_option ((#) BSL) (unescape ds)
            else if d = DQ then map_option ((#) DQ) (unescape ds)
            else if d = CHR ''n'' then map_option ((#) LF) (unescape ds)
            else if d = CHR ''r'' then map_option ((#) CR) (unescape ds)
            else if d = CHR ''t'' then map_option ((#) TAB) (unescape ds)
            else None)
      else map_option ((#) c) (unescape (d # ds)))"

section \<open>Decimal output\<close>

text \<open>
  \<^verbatim>\<open>std::to_string\<close> and \<^verbatim>\<open>operator<<\<close> print an integer in decimal, with a
  leading minus sign for a negative one. \<open>to_string_nat\<close> is the unsigned case
  (\<^verbatim>\<open>size_t\<close>), \<open>to_string\<close> the signed one (\<^verbatim>\<open>int\<close>, \<^verbatim>\<open>long long\<close>).
\<close>

definition digit_char :: "nat \<Rightarrow> char" where
  "digit_char d = ''0123456789'' ! (d mod 10)"

fun to_string_nat :: "nat \<Rightarrow> string" where
  "to_string_nat n =
     (if n < 10 then [digit_char n] else to_string_nat (n div 10) @ [digit_char (n mod 10)])"

declare to_string_nat.simps [simp del]

definition to_string :: "int \<Rightarrow> string" where
  "to_string i = (if i < 0 then CHR ''-'' # to_string_nat (nat (- i)) else to_string_nat (nat i))"

text \<open>
  A \<^verbatim>\<open>float\<close> or \<^verbatim>\<open>double\<close> is a sign with either a finite magnitude \<open>m * 2 ^ e\<close>,
  an infinity or a NaN. A \<^verbatim>\<open>float\<close> is widened to \<^verbatim>\<open>double\<close> when it is printed,
  which keeps its value.
\<close>

datatype fp_value = Finite bool nat int | Infinite bool | NaN bool

text \<open>
  \<^verbatim>\<open>oss << std::fixed << std::setprecision(p) << x\<close> prints like \<^verbatim>\<open>printf("%.*f", p, x)\<close>:
  the exact value rounded to \<open>p\<close> decimals, ties to even, then the integer part, and
  for \<open>p > 0\<close> a point and exactly \<open>p\<close> digits. The sign is printed also for a negative
  value that rounds to zero.
\<close>

definition round_half_even_div :: "nat \<Rightarrow> nat \<Rightarrow> nat" where
  "round_half_even_div n d =
     (let q = n div d; r = n mod d
      in if d < 2 * r \<or> (2 * r = d \<and> odd q) then q + 1 else q)"

definition scaled_magnitude :: "nat \<Rightarrow> nat \<Rightarrow> int \<Rightarrow> nat" where
  "scaled_magnitude p m e =
     (if 0 \<le> e then m * 2 ^ nat e * 10 ^ p
      else round_half_even_div (m * 10 ^ p) (2 ^ nat (- e)))"

definition zero_pad :: "nat \<Rightarrow> string \<Rightarrow> string" where
  "zero_pad p s = replicate (p - length s) (CHR ''0'') @ s"

definition put_fixed :: "nat \<Rightarrow> fp_value \<Rightarrow> string" where
  "put_fixed p x =
     (case x of
        Finite neg m e \<Rightarrow>
          (let v = scaled_magnitude p m e
           in (if neg then ''-'' else [])
              @ to_string_nat (v div 10 ^ p)
              @ (if p = 0 then [] else ''.'' @ zero_pad p (to_string_nat (v mod 10 ^ p))))
      | Infinite neg \<Rightarrow> (if neg then ''-inf'' else ''inf'')
      | NaN neg \<Rightarrow> (if neg then ''-nan'' else ''nan''))"

section \<open>The exporter's state\<close>

text \<open>\<^verbatim>\<open>struct MetricsData\<close> (otel_exporter.h, lines 47-67), the cached snapshot.\<close>

record MetricsData =
  fps :: fp_value
  frametime :: fp_value
  cpu_load :: fp_value
  cpu_power :: fp_value
  cpu_mhz :: int
  cpu_temp :: int
  gpu_load :: fp_value
  gpu_temp :: int
  gpu_core_clock :: int
  gpu_mem_clock :: int
  gpu_power :: fp_value
  gpu_vram_used :: fp_value
  ram_used :: fp_value
  swap_used :: fp_value
  process_rss :: fp_value
  process_name :: string
  graphics_api :: string
  process_pid :: int
  timestamp :: int

text \<open>
  The fields of \<^verbatim>\<open>overlay_params\<close> that the exporter reads (the struct itself is
  declared outside these sources).
\<close>

record overlay_params =
  otel_enabled :: bool
  otel_port :: string
  otel_start_timeout :: nat
  otel_update_interval :: nat

text \<open>
  The three threads that touch an exporter: the host application, the listener task
  (\<^verbatim>\<open>server_thread_\<close>) and the sampler task (\<^verbatim>\<open>metrics_thread_\<close>).
\<close>

datatype thread_id = HostThread | ServerThread | MetricsThread

text \<open>
  A \<^verbatim>\<open>std::thread\<close> handle is either not joinable, or joinable; for a joinable one the
  model records the member function the thread runs and the state the thread is in:
  \<open>Running\<close> (it runs, waits with a timeout, or has returned already) or \<open>Blocked\<close>
  (it is stuck for ever: in a lock that is never released, or in a call that does not
  return). A new thread is running; it becomes blocked only by what its function does.
\<close>

datatype entry_point = Start_delay_timer | Run

datatype thread_status = Running | Blocked

datatype thread_handle = NotJoinable | Joinable entry_point thread_status

text \<open>
  The \<^verbatim>\<open>SPDLOG_*\<close> macros append a line to the log; \<open>{}\<close> in a format string is
  replaced by the printed argument.
\<close>

datatype log_level = Error | Warn | Info | Debug

text \<open>
  \<^verbatim>\<open>class OtelExporter\<close> (otel_exporter.h, lines 32-67). \<^verbatim>\<open>metrics_mutex_\<close> is a
  non-recursive \<^verbatim>\<open>std::mutex\<close>: the model keeps its owner. The condition variable has
  no state of its own.
\<close>

record OtelExporter =
  params :: overlay_params
  enabled :: bool
  should_stop :: bool
  server_thread :: thread_handle
  metrics_thread :: thread_handle
  metrics_mutex :: "thread_id option"
  server_socket :: int
  metrics_updated :: bool
  bind_address :: string
  bind_port :: "16 word"
  current_metrics :: MetricsData
  log :: "(log_level \<times> string) list"

definition spdlog :: "log_level \<Rightarrow> string \<Rightarrow> OtelExporter \<Rightarrow> OtelExporter" where
  "spdlog level msg e = e\<lparr>log := log e @ [(level, msg)]\<rparr>"

text \<open>
  Locking a \<^verbatim>\<open>std::mutex\<close> from thread \<open>self\<close>: it succeeds when the mutex is free;
  when \<open>self\<close> owns it already the behaviour is undefined (the thread deadlocks on itself);
  when another thread owns it, the call waits for that thread. \<open>OutOfBounds\<close> is the
  third way a call can go wrong: a read past the end of an array.
\<close>

datatype failure = SelfDeadlock | HeldBy thread_id | OutOfBounds

definition mutex_lock :: "thread_id \<Rightarrow> thread_id option \<Rightarrow> failure + thread_id option" where
  "mutex_lock self owner =
     (case owner of
        None \<Rightarrow> Inr (Some self)
      | Some t \<Rightarrow> if t = self then Inl SelfDeadlock else Inl (HeldBy t))"

section \<open>Rendering the exposition document\<close>

text \<open>
  \<^verbatim>\<open>OtelExporter::generate_metrics\<close> (otel_exporter.cpp, lines 299-391), called by
  thread \<open>self\<close>; \<open>now\<close> is the millisecond count of \<^verbatim>\<open>system_clock::now()\<close>, read once.
  The \<^verbatim>\<open>lock_guard\<close> holds the mutex for the body and releases it on return. Each line
  below is one \<^verbatim>\<open>oss << ...\<close> statement.
\<close>

definition generate_metrics :: "thread_id \<Rightarrow> int \<Rightarrow> OtelExporter \<Rightarrow> failure + string" where
  "generate_metrics self now e =
     (case mutex_lock self (metrics_mutex e) of
        Inl f \<Rightarrow> Inl f
      | Inr _ \<Rightarrow>
          (let cm = current_metrics e;
               labels = ''process_name='' @ [DQ] @ escape_label_value (process_name cm)
                        @ [DQ] @ '',graphics_api='' @ [DQ] @ escape_label_value (graphics_api cm)
                        @ [DQ] @ '',pid='' @ [DQ] @ to_string (process_pid cm) @ [DQ]
           in Inr (
             ''# HELP mangohud_fps_current Current frames per second'' @ [LF]
           @ ''# TYPE mangohud_fps_current gauge'' @ [LF]
           @ ''mangohud_fps_current{'' @ labels @ ''} '' @ put_fixed 2 (fps cm)
               @ '' '' @ to_string now @ [LF]
           @ ''# HELP mangohud_frametime_ms Current frame time in milliseconds'' @ [LF]
           @ ''# TYPE mangohud_frametime_ms gauge'' @ [LF]
           @ ''mangohud_frametime_ms{'' @ labels @ ''} '' @ put_fixed 3 (frametime cm)
               @ '' '' @ to_string now @ [LF]
           @ ''# HELP mangohud_cpu_load_percent CPU load percentage'' @ [LF]
           @ ''# TYPE mangohud_cpu_load_percent gauge'' @ [LF]
           @ ''mangohud_cpu_load_percent{'' @ labels @ ''} '' @ put_fixed 1 (cpu_load cm)
               @ '' '' @ to_string now @ [LF]
           @ ''# HELP mangohud_cpu_power_watts CPU power consumption in watts'' @ [LF]
           @ ''# TYPE mangohud_cpu_power_watts gauge'' @ [LF]
           @ ''mangohud_cpu_power_watts{'' @ labels @ ''} '' @ put_fixed 1 (cpu_power cm)
               @ '' '' @ to_string now @ [LF]
           @ ''# HELP mangohud_cpu_frequency_mhz CPU frequency in MHz'' @ [LF]
           @ ''# TYPE mangohud_cpu_frequency_mhz gauge'' @ [LF]
           @ ''mangohud_cpu_frequency_mhz{'' @ labels @ ''} '' @ to_string (cpu_mhz cm)
               @ '' '' @ to_string now @ [LF]
           @ ''# HELP mangohud_cpu_temperature_celsius CPU temperature in Celsius'' @ [LF]
           @ ''# TYPE mangohud_cpu_temperature_celsius gauge'' @ [LF]
           @ ''mangohud_cpu_temperature_celsius{'' @ labels @ ''} '' @ to_string (cpu_temp cm)
               @ '' '' @ to_string now @ [LF]
           @ ''# HELP mangohud_gpu_load_percent GPU load percentage'' @ [LF]
           @ ''# TYPE mangohud_gpu_load_percent gauge'' @ [LF]
           @ ''mangohud_gpu_load_percent{'' @ labels @ ''} '' @ put_fixed 1 (gpu_load cm)
               @ '' '' @ to_string now @ [LF]
           @ ''# HELP mangohud_gpu_temperature_celsius GPU temperature in Celsius'' @ [LF]
           @ ''# TYPE mangohud_gpu_temperature_celsius gauge'' @ [LF]
           @ ''mangohud_gpu_temperature_celsius{'' @ labels @ ''} '' @ to_string (gpu_temp cm)
               @ '' '' @ to_string now @ [LF]
           @ ''# HELP mangohud_gpu_core_clock_mhz GPU core clock in MHz'' @ [LF]
           @ ''# TYPE mangohud_gpu_core_clock_mhz gauge'' @ [LF]
           @ ''mangohud_gpu_core_clock_mhz{'' @ labels @ ''} '' @ to_string (gpu_core_clock cm)
               @ '' '' @ to_string now @ [LF]
           @ ''# HELP mangohud_gpu_memory_clock_mhz GPU memory clock in MHz'' @ [LF]
           @ ''# TYPE mangohud_gpu_memory_clock_mhz gauge'' @ [LF]
           @ ''mangohud_gpu_memory_clock_mhz{'' @ labels @ ''} '' @ to_string (gpu_mem_clock cm)
               @ '' '' @ to_string now @ [LF]
           @ ''# HELP mangohud_gpu_power_watts GPU power consumption in watts'' @ [LF]
           @ ''# TYPE mangohud_gpu_power_watts gauge'' @ [LF]
           @ ''mangohud_gpu_power_watts{'' @ labels @ ''} '' @ put_fixed 1 (gpu_power cm)
               @ '' '' @ to_string now @ [LF]
           @ ''# HELP mangohud_gpu_vram_used_gb GPU VRAM used in GB'' @ [LF]
           @ ''# TYPE mangohud_gpu_vram_used_gb gauge'' @ [LF]
           @ ''mangohud_gpu_vram_used_gb{'' @ labels @ ''} '' @ put_fixed 3 (gpu_vram_used cm)
               @ '' '' @ to_string now @ [LF]
           @ ''# HELP mangohud_ram_used_gb System RAM used in GB'' @ [LF]
           @ ''# TYPE mangohud_ram_used_gb gauge'' @ [LF]
           @ ''mangohud_ram_used_gb{'' @ labels @ ''} '' @ put_fixed 3 (ram_used cm)
               @ '' '' @ to_string now @ [LF]
           @ ''# HELP mangohud_swap_used_gb System swap used in GB'' @ [LF]
           @ ''# TYPE mangohud_swap_used_gb gauge'' @ [LF]
           @ ''mangohud_swap_used_gb{'' @ labels @ ''} '' @ put_fixed 3 (swap_used cm)
               @ '' '' @ to_string now @ [LF]
           @ ''# HELP mangohud_process_rss_gb Process RSS memory in GB'' @ [LF]
           @ ''# TYPE mangohud_process_rss_gb gauge'' @ [LF]
           @ ''mangohud_process_rss_gb{'' @ labels @ ''} '' @ put_fixed 3 (process_rss cm)
               @ '' '' @ to_string now @ [LF])))"

text \<open>
  The document in the words of the specification. The shared label set; a stanza of three
  lines for a metric name, its description and its printed value; the fifteen metrics in
  their order, each with the value the snapshot gives it; and the reading of a text as
  newline-terminated lines.
\<close>

definition label_set :: "MetricsData \<Rightarrow> string" where
  "label_set cm =
     ''process_name='' @ [DQ] @ escape_label_value (process_name cm) @ [DQ]
     @ '',graphics_api='' @ [DQ] @ escape_label_value (graphics_api cm) @ [DQ]
     @ '',pid='' @ [DQ] @ to_string (process_pid cm) @ [DQ]"

definition stanza :: "string \<Rightarrow> string \<Rightarrow> string \<times> string \<times> string \<Rightarrow> string list" where
  "stanza labels ts fam =
     (case fam of (name, description, printed) \<Rightarrow>
        [''# HELP '' @ name @ '' '' @ description,
         ''# TYPE '' @ name @ '' gauge'',
         name @ ''{'' @ labels @ ''} '' @ printed @ '' '' @ ts])"

definition metric_families :: "MetricsData \<Rightarrow> (string \<times> string \<times> string) list" where
  "metric_families cm =
     [(''mangohud_fps_current'', ''Current frames per second'', put_fixed 2 (fps cm)),
      (''mangohud_frametime_ms'', ''Current frame time in milliseconds'', put_fixed 3 (frametime cm)),
      (''mangohud_cpu_load_percent'', ''CPU load percentage'', put_fixed 1 (cpu_load cm)),
      (''mangohud_cpu_power_watts'', ''CPU power consumption in watts'', put_fixed 1 (cpu_power cm)),
      (''mangohud_cpu_frequency_mhz'', ''CPU frequency in MHz'', to_string (cpu_mhz cm)),
      (''mangohud_cpu_temperature_celsius'', ''CPU temperature in Celsius'', to_string (cpu_temp cm)),
      (''mangohud_gpu_load_percent'', ''GPU load percentage'', put_fixed 1 (gpu_load cm)),
      (''mangohud_gpu_temperature_celsius'', ''GPU temperature in Celsius'', to_string (gpu_temp cm)),
      (''mangohud_gpu_core_clock_mhz'', ''GPU core clock in MHz'', to_string (gpu_core_clock cm)),
      (''mangohud_gpu_memory_clock_mhz'', ''GPU memory clock in MHz'', to_string (gpu_mem_clock cm)),
      (''mangohud_gpu_power_watts'', ''GPU power consumption in watts'', put_fixed 1 (gpu_power cm)),
      (''mangohud_gpu_vram_used_gb'', ''GPU VRAM used in GB'', put_fixed 3 (gpu_vram_used cm)),
      (''mangohud_ram_used_gb'', ''System RAM used in GB'', put_fixed 3 (ram_used cm)),
      (''mangohud_swap_used_gb'', ''System swap used in GB'', put_fixed 3 (swap_used cm)),
      (''mangohud_process_rss_gb'', ''Process RSS memory in GB'', put_fixed 3 (process_rss cm))]"

definition unlines :: "string list \<Rightarrow> string" where
  "unlines ls = concat (map (\<lambda>l. l @ [LF]) ls)"

fun lines_from :: "string \<Rightarrow> string \<Rightarrow> string list" where
  "lines_from cur [] = (if cur = [] then [] else [cur])"
| "lines_from cur (c # cs) = (if c = LF then cur # lines_from [] cs else lines_from (cur @ [c]) cs)"

definition split_lines :: "string \<Rightarrow> string list" where
  "split_lines doc = lines_from [] doc"

text \<open>
  Every third line of a document made of stanzas: its sample lines.
\<close>

fun sample_lines :: "string list \<Rightarrow> string list" where
  "sample_lines (h # t # s # rest) = s # sample_lines rest"
| "sample_lines _ = []"

definition decimal_digits :: "char set" where
  "decimal_digits = set ''0123456789''"

section \<open>Resolving the bind address\<close>

text \<open>
  The standard-library calls of \<^verbatim>\<open>parse_bind_address\<close>. \<^verbatim>\<open>std::stoi\<close> skips
  leading white space, reads an optional sign and then the longest run of decimal digits;
  what follows the digits is ignored. It throws \<^verbatim>\<open>std::invalid_argument\<close> when there
  is no digit, and \<^verbatim>\<open>std::out_of_range\<close> when the value does not fit an \<^verbatim>\<open>int\<close>
  (32 bits). A NUL byte is neither white space, sign nor digit, so the scan of the C
  string stops there as it does at any other such byte.
\<close>

datatype cpp_exception = Invalid_argument | Out_of_range

definition isspace :: "char \<Rightarrow> bool" where
  "isspace c = (c = CHR '' '' \<or> c = TAB \<or> c = LF \<or> c = CHR 0x0B \<or> c = CHR 0x0C \<or> c = CR)"

definition isdigit :: "char \<Rightarrow> bool" where
  "isdigit c = (c \<in> decimal_digits)"

definition digit_value :: "char \<Rightarrow> nat" where
  "digit_value ch = of_char ch - of_char (CHR ''0'')"

definition digits_value :: "string \<Rightarrow> nat" where
  "digits_value ds = foldl (\<lambda>acc c. 10 * acc + digit_value c) 0 ds"

definition stoi :: "string \<Rightarrow> cpp_exception + int" where
  "stoi str =
     (let s = dropWhile isspace str;
          neg = (s \<noteq> [] \<and> hd s = CHR ''-'');
          rest = (if s \<noteq> [] \<and> (hd s = CHR ''-'' \<or> hd s = CHR ''+'') then tl s else s);
          ds = takeWhile isdigit rest
      in if ds = [] then Inl Invalid_argument
         else (let v = (if neg then - int (digits_value ds) else int (digits_value ds))
               in if v < - 2147483648 \<or> 2147483647 < v then Inl Out_of_range else Inr v))"

text \<open>
  \<^verbatim>\<open>std::string::find\<close> for one byte and \<^verbatim>\<open>find_first_not_of\<close>: the position found, or
  \<open>None\<close> for \<^verbatim>\<open>npos\<close>. \<^verbatim>\<open>substr(pos, count)\<close> throws when \<open>pos\<close> is past the end;
  without a count it runs to the end of the string.
\<close>

definition find_char :: "string \<Rightarrow> char \<Rightarrow> nat option" where
  "find_char s c =
     (let k = length (takeWhile (\<lambda>x. x \<noteq> c) s) in if k < length s then Some k else None)"

definition find_first_not_of :: "string \<Rightarrow> string \<Rightarrow> nat option" where
  "find_first_not_of s accepted =
     (let k = length (takeWhile (\<lambda>x. x \<in> set accepted) s)
      in if k < length s then Some k else None)"

definition substr :: "string \<Rightarrow> nat \<Rightarrow> nat option \<Rightarrow> cpp_exception + string" where
  "substr s pos count =
     (if length s < pos then Inl Out_of_range
      else Inr (case count of None \<Rightarrow> drop pos s | Some n \<Rightarrow> take n (drop pos s)))"

text \<open>
  The \<^verbatim>\<open>try\<close> block of \<^verbatim>\<open>parse_bind_address\<close> (lines 47-58, and again lines 61-72 with
  \<open>address\<close> in the place of \<open>port_str\<close>): the handler catches every \<^verbatim>\<open>std::exception\<close>,
  so both exceptions of \<^verbatim>\<open>std::stoi\<close> end in the default port.
\<close>

definition try_port :: "string \<Rightarrow> OtelExporter \<Rightarrow> OtelExporter" where
  "try_port port_text e =
     (case stoi port_text of
        Inr port \<Rightarrow>
          if port < 1 \<or> 65535 < port
          then (spdlog Error (''Invalid port number for OpenTelemetry exporter: ''
                              @ to_string port @ ''. Using default 16969'') e)
                 \<lparr>bind_port := 16969\<rparr>
          else e\<lparr>bind_port := word_of_int port\<rparr>
      | Inl _ \<Rightarrow>
          (spdlog Error (''Failed to parse port for OpenTelemetry exporter: ''
                         @ port_text @ ''. Using default 16969'') e)
            \<lparr>bind_port := 16969\<rparr>)"

text \<open>
  \<^verbatim>\<open>OtelExporter::parse_bind_address\<close> (otel_exporter.cpp, lines 42-80). An exception
  that leaves the function is the \<open>Inl\<close> result; only \<^verbatim>\<open>substr\<close> is called outside the
  \<^verbatim>\<open>try\<close> blocks.
\<close>

definition parse_bind_address :: "string \<Rightarrow> OtelExporter \<Rightarrow> cpp_exception + OtelExporter" where
  "parse_bind_address address e =
     (case (case find_char address (CHR '':'') of
              Some colon_pos \<Rightarrow>
                (case substr address 0 (Some colon_pos) of
                   Inl x \<Rightarrow> Inl x
                 | Inr host \<Rightarrow>
                     (case substr address (colon_pos + 1) None of
                        Inl x \<Rightarrow> Inl x
                      | Inr port_str \<Rightarrow> Inr (try_port port_str (e\<lparr>bind_address := host\<rparr>))))
            | None \<Rightarrow> Inr (try_port address (e\<lparr>bind_address := ''0.0.0.0''\<rparr>))) of
        Inl x \<Rightarrow> Inl x
      | Inr e1 \<Rightarrow>
          Inr (if bind_address e1 \<noteq> ''0.0.0.0'' \<and> bind_address e1 \<noteq> ''127.0.0.1''
                  \<and> bind_address e1 \<noteq> ''localhost''
                  \<and> find_first_not_of (bind_address e1) ''0123456789.'' \<noteq> None
               then spdlog Warn (''IP address format might be invalid for OpenTelemetry exporter: ''
                                 @ bind_address e1) e1
               else e1))"

text \<open>
  The listener hands \<^verbatim>\<open>bind_address_\<close> to \<^verbatim>\<open>inet_pton(AF_INET, ...)\<close> (line 137) and
  gives up when that call does not return 1. The C library accepts exactly the
  dotted-decimal form: four fields separated by single points, each a decimal number up
  to 255 without a superfluous leading zero. \<open>inet_pton4\<close> is the library's scan, with
  its three variables \<open>saw_digit\<close>, \<open>octets\<close> and the field value being read.
\<close>

fun inet_pton4 :: "bool \<Rightarrow> nat \<Rightarrow> nat \<Rightarrow> string \<Rightarrow> bool" where
  "inet_pton4 saw_digit octets field [] = (4 \<le> octets)"
| "inet_pton4 saw_digit octets field (ch # src) =
     (if isdigit ch
      then (if saw_digit \<and> field = 0 then False
            else if 255 < field * 10 + digit_value ch then False
            else if \<not> saw_digit
            then (if 4 < octets + 1 then False
                  else inet_pton4 True (octets + 1) (field * 10 + digit_value ch) src)
            else inet_pton4 True octets (field * 10 + digit_value ch) src)
      else if ch = CHR ''.'' \<and> saw_digit
      then (if octets = 4 then False else inet_pton4 False octets 0 src)
      else False)"

definition inet_pton_AF_INET :: "string \<Rightarrow> bool" where
  "inet_pton_AF_INET src = inet_pton4 False 0 0 (takeWhile (\<lambda>c. c \<noteq> NUL) src)"

text \<open>
  What the words "valid port" and "numeric" of the specification mean: a port in
  \<open>[1, 65535]\<close>, and a text that is a decimal numeral and nothing else.
\<close>

definition valid_port :: "int \<Rightarrow> bool" where
  "valid_port n = (1 \<le> n \<and> n \<le> 65535)"

definition numeric :: "string \<Rightarrow> bool" where
  "numeric s = (s \<noteq> [] \<and> list_all isdigit s)"

text \<open>
  The constructor (otel_exporter.cpp, lines 22-35) and the default member initialisers
  of the header. \<^verbatim>\<open>bind_port_\<close> has no initialiser: a disabled exporter keeps whatever
  the memory held, which is the parameter \<open>indeterminate\<close>.
\<close>

definition default_metrics :: MetricsData where
  "default_metrics =
     \<lparr>fps = Finite False 0 0, frametime = Finite False 0 0, cpu_load = Finite False 0 0,
      cpu_power = Finite False 0 0, cpu_mhz = 0, cpu_temp = 0, gpu_load = Finite False 0 0,
      gpu_temp = 0, gpu_core_clock = 0, gpu_mem_clock = 0, gpu_power = Finite False 0 0,
      gpu_vram_used = Finite False 0 0, ram_used = Finite False 0 0,
      swap_used = Finite False 0 0, process_rss = Finite False 0 0,
      process_name = [], graphics_api = [], process_pid = 0, timestamp = 0\<rparr>"

definition new_exporter :: "overlay_params \<Rightarrow> 16 word \<Rightarrow> cpp_exception + OtelExporter" where
  "new_exporter ps indeterminate =
     (let e = \<lparr>params = ps, enabled = otel_enabled ps, should_stop = False,
               server_thread = NotJoinable, metrics_thread = NotJoinable,
               metrics_mutex = None, server_socket = - 1, metrics_updated = False,
               bind_address = [], bind_port = indeterminate,
               current_metrics = default_metrics, log = []\<rparr>
      in if \<not> enabled e then Inr e
         else (case parse_bind_address (otel_port ps) e of
                 Inl x \<Rightarrow> Inl x
               | Inr e1 \<Rightarrow>
                   Inr (spdlog Info (''OpenTelemetry exporter initialized on '' @ bind_address e1
                                     @ '':'' @ to_string_nat (unat (bind_port e1))) e1)))"

text \<open>
  The bind target that a call of the resolver leaves in the exporter: the address and the
  port read as a number, or \<open>None\<close> when the call ended in an exception.
\<close>

definition bind_target :: "cpp_exception + OtelExporter \<Rightarrow> (string \<times> int) option" where
  "bind_target r = (case r of Inl _ \<Rightarrow> None | Inr e \<Rightarrow> Some (bind_address e, uint (bind_port e)))"

section \<open>Answering a request\<close>

text \<open>
  The first \<^verbatim>\<open>recv\<close> on an accepted connection either fails (it returns -1) or
  delivers some bytes, of which at most \<open>len\<close> are stored (it returns their number, which
  is 0 when the peer has closed without sending).
\<close>

datatype client_socket = RecvFails | Delivers string

definition recv :: "client_socket \<Rightarrow> nat \<Rightarrow> int \<times> string" where
  "recv sock len =
     (case sock of
        RecvFails \<Rightarrow> (- 1, [])
      | Delivers bytes \<Rightarrow> (int (min (length bytes) len), take len bytes))"

text \<open>
  A buffer read as a C string ends at its first NUL byte. \<^verbatim>\<open>strstr\<close> returns the
  offset of the first occurrence of \<open>needle\<close>, or \<open>None\<close> for the null pointer.
\<close>

definition c_str :: "string \<Rightarrow> string" where
  "c_str buffer = takeWhile (\<lambda>c. c \<noteq> NUL) buffer"

fun strstr :: "string \<Rightarrow> string \<Rightarrow> nat option" where
  "strstr [] needle = (if needle = [] then Some 0 else None)"
| "strstr (h # hs) needle =
     (if take (length needle) (h # hs) = needle then Some 0
      else map_option Suc (strstr hs needle))"

text \<open>
  \<^verbatim>\<open>OtelExporter::handle_metrics_request\<close> (otel_exporter.cpp, lines 189-217), run by
  thread \<open>self\<close>. The result is what is handed to \<^verbatim>\<open>send\<close>: \<open>None\<close> when the function
  returns without sending. The buffer holds the \<open>bytes_read\<close> bytes received, followed by
  the NUL written at \<^verbatim>\<open>buffer[bytes_read]\<close>.
\<close>

definition handle_metrics_request ::
  "thread_id \<Rightarrow> int \<Rightarrow> client_socket \<Rightarrow> OtelExporter \<Rightarrow> failure + string option" where
  "handle_metrics_request self now client e =
     (case recv client 1023 of (bytes_read, buffer) \<Rightarrow>
        if bytes_read \<le> 0 then Inr None
        else if strstr (c_str (buffer @ [NUL])) ''GET /metrics'' \<noteq> None
        then (case generate_metrics self now e of
                Inl f \<Rightarrow> Inl f
              | Inr metrics \<Rightarrow>
                  Inr (Some (''HTTP/1.1 200 OK'' @ [CR, LF]
                     @ ''Content-Type: text/plain; version=0.0.4; charset=utf-8'' @ [CR, LF]
                     @ ''Content-Length: '' @ to_string_nat (length metrics) @ [CR, LF]
                     @ ''Connection: close'' @ [CR, LF]
                     @ [CR, LF]
                     @ metrics)))
        else Inr (Some (''HTTP/1.1 404 Not Found'' @ [CR, LF] @ ''Content-Length: 0'' @ [CR, LF]
                        @ ''Connection: close'' @ [CR, LF] @ [CR, LF])))"

text \<open>
  An HTTP response in the words of the specification: a status line, header fields and a
  body; and the status line of what a call has sent, if it has sent anything.
\<close>

definition http_response :: "string \<Rightarrow> (string \<times> string) list \<Rightarrow> string \<Rightarrow> string" where
  "http_response status hdrs body =
     ''HTTP/1.1 '' @ status @ [CR, LF]
     @ concat (map (\<lambda>(name, v). name @ '': '' @ v @ [CR, LF]) hdrs)
     @ [CR, LF] @ body"

definition status_line :: "failure + string option \<Rightarrow> string option" where
  "status_line r =
     (case r of
        Inr (Some sent) \<Rightarrow> Some (takeWhile (\<lambda>c. c \<noteq> CR) sent)
      | _ \<Rightarrow> None)"

section \<open>Starting and stopping\<close>

text \<open>
  \<^verbatim>\<open>OtelExporter::start\<close> (otel_exporter.cpp, lines 82-90). Assigning a new thread to a
  handle that is still joinable calls \<^verbatim>\<open>std::terminate\<close>; the guard looks at
  \<^verbatim>\<open>server_thread_\<close> only.
\<close>

datatype fatal = Terminate

definition joinable :: "thread_handle \<Rightarrow> bool" where
  "joinable h = (h \<noteq> NotJoinable)"

definition start :: "OtelExporter \<Rightarrow> fatal + OtelExporter" where
  "start e =
     (if \<not> enabled e \<or> joinable (server_thread e) then Inr e
      else (let e1 = e\<lparr>should_stop := False\<rparr>;
                e2 = e1\<lparr>server_thread := Joinable Start_delay_timer Running\<rparr>
            in if joinable (metrics_thread e2) then Inl Terminate
               else Inr (e2\<lparr>metrics_thread := Joinable Run Running\<rparr>)))"

text \<open>
  \<^verbatim>\<open>if (t.joinable()) t.join();\<close> returns once the thread has come to an end, and
  leaves the handle not joinable. A running thread comes to an end when the stop flag is
  set: the listener tests the flag after its sleep and once per second in its loop, the
  sampler is notified in its wait. On a blocked thread \<^verbatim>\<open>join\<close> does not return
  (\<open>None\<close>).
\<close>

definition join_if_joinable :: "thread_handle \<Rightarrow> thread_handle option" where
  "join_if_joinable h =
     (case h of
        NotJoinable \<Rightarrow> Some NotJoinable
      | Joinable _ Running \<Rightarrow> Some NotJoinable
      | Joinable _ Blocked \<Rightarrow> None)"

text \<open>
  \<^verbatim>\<open>OtelExporter::stop\<close> (otel_exporter.cpp, lines 101-118); \<open>None\<close> when the call
  does not return. \<^verbatim>\<open>notify_all\<close> changes no state of the exporter. The listener
  thread runs beside the call. When it has passed its test of the flag (line 96) before
  the flag was set, it creates its socket and assigns \<^verbatim>\<open>server_socket_\<close> (line 121,
  and -1 again at lines 140, 148, 156 when binding fails) after \<open>stop\<close> has tested the
  handle (line 104); then it leaves its loop at once, and \<^verbatim>\<open>join\<close> finds the handle
  as the listener left it. \<open>late\<close> is the last value the listener assigns in that way, if
  it assigns any; it counts only when there is a listener thread to join. A running
  sampler that is notified leaves its loop without writing anything. The destructor
  (lines 37-40) calls \<open>stop\<close>.
\<close>

definition stop :: "int option \<Rightarrow> OtelExporter \<Rightarrow> OtelExporter option" where
  "stop late e =
     (let e1 = e\<lparr>should_stop := True\<rparr>;
          e2 = (if 0 \<le> server_socket e1 then e1\<lparr>server_socket := - 1\<rparr> else e1)
      in case join_if_joinable (server_thread e2) of
           None \<Rightarrow> None
         | Some st \<Rightarrow>
             (let e3 = (if joinable (server_thread e2)
                        then (case late of None \<Rightarrow> e2 | Some fd \<Rightarrow> e2\<lparr>server_socket := fd\<rparr>)
                        else e2)
              in case join_if_joinable (metrics_thread e3) of
                   None \<Rightarrow> None
                 | Some mt \<Rightarrow> Some (e3\<lparr>server_thread := st, metrics_thread := mt\<rparr>)))"

definition destroy :: "int option \<Rightarrow> OtelExporter \<Rightarrow> OtelExporter option" where
  "destroy late e = stop late (spdlog Debug ''OpenTelemetry exporter destructor called'' e)"

section \<open>Sampling\<close>

text \<open>
  What \<^verbatim>\<open>update_metrics\<close> reads from outside the exporter: the global
  \<^verbatim>\<open>currentLogData\<close> (its struct is declared outside these sources; the fields read
  are listed, \<^verbatim>\<open>gpu_load\<close> being the one that is cast to \<^verbatim>\<open>float\<close>), the program
  name and process id, \<^verbatim>\<open>HUDElements.sw_stats\<close> (a null pointer, or the engine index
  it points to), the table \<^verbatim>\<open>engines\<close> and the steady clock.
\<close>

record logData =
  log_fps :: fp_value
  log_frametime :: fp_value
  log_cpu_load :: fp_value
  log_cpu_power :: fp_value
  log_cpu_mhz :: int
  log_cpu_temp :: int
  log_gpu_load :: int
  log_gpu_temp :: int
  log_gpu_core_clock :: int
  log_gpu_mem_clock :: int
  log_gpu_power :: fp_value
  log_gpu_vram_used :: fp_value
  log_ram_used :: fp_value
  log_swap_used :: fp_value
  log_process_rss :: fp_value

record live_source =
  currentLogData :: logData
  program_name :: string
  current_pid :: int
  sw_stats_engine :: "nat option"
  engines :: "string list"
  steady_now :: int

text \<open>
  \<^verbatim>\<open>static_cast<float>\<close> of an \<^verbatim>\<open>int\<close>: a \<^verbatim>\<open>float\<close> has 24 significant bits, so a
  magnitude of more bits loses its low bits, rounded to the nearest value, ties to even.
  A magnitude below \<open>2 ^ 24\<close> is kept as it is.
\<close>

fun bit_length :: "nat \<Rightarrow> nat" where
  "bit_length n = (if n = 0 then 0 else Suc (bit_length (n div 2)))"

declare bit_length.simps [simp del]

definition float_of_int :: "int \<Rightarrow> fp_value" where
  "float_of_int i =
     (let n = nat \<bar>i\<bar>; k = bit_length n - 24
      in Finite (i < 0) (round_half_even_div n (2 ^ k)) (int k))"

text \<open>
  \<^verbatim>\<open>OtelExporter::update_metrics\<close> (otel_exporter.cpp, lines 232-267), called by thread
  \<open>self\<close>. It is a public member: the sampler loop calls it, and so may the host. The
  \<^verbatim>\<open>lock_guard\<close> takes the mutex first and releases it on return. Reading
  \<^verbatim>\<open>engines[i]\<close> past the end of the table is the failure \<open>OutOfBounds\<close>.
\<close>

definition update_metrics :: "thread_id \<Rightarrow> live_source \<Rightarrow> OtelExporter \<Rightarrow> failure + OtelExporter" where
  "update_metrics self src e =
     (case mutex_lock self (metrics_mutex e) of
        Inl f \<Rightarrow> Inl f
      | Inr _ \<Rightarrow>
          (let ld = currentLogData src;
               cm = (current_metrics e)
                 \<lparr>fps := log_fps ld,
                  frametime := log_frametime ld,
                  cpu_load := log_cpu_load ld,
                  cpu_power := log_cpu_power ld,
                  cpu_mhz := log_cpu_mhz ld,
                  cpu_temp := log_cpu_temp ld,
                  gpu_load := float_of_int (log_gpu_load ld),
                  gpu_temp := log_gpu_temp ld,
                  gpu_core_clock := log_gpu_core_clock ld,
                  gpu_mem_clock := log_gpu_mem_clock ld,
                  gpu_power := log_gpu_power ld,
                  gpu_vram_used := log_gpu_vram_used ld,
                  ram_used := log_ram_used ld,
                  swap_used := log_swap_used ld,
                  process_rss := log_process_rss ld,
                  process_name := program_name src,
                  process_pid := current_pid src\<rparr>
           in case (case sw_stats_engine src of
                      Some engine \<Rightarrow>
                        if engine < 18
                        then (if engine < length (engines src) then Inr (engines src ! engine)
                              else Inl OutOfBounds)
                        else Inr ''unknown''
                    | None \<Rightarrow> Inr ''unknown'') of
                Inl f \<Rightarrow> Inl f
              | Inr api \<Rightarrow>
                  Inr (e\<lparr>current_metrics := cm\<lparr>graphics_api := api, timestamp := steady_now src\<rparr>,
                         metrics_updated := True\<rparr>)))"

text \<open>
  \<^verbatim>\<open>OtelExporter::run\<close> (otel_exporter.cpp, lines 219-230), the body of the sampler
  thread. Each pass of the loop takes the mutex with a \<^verbatim>\<open>unique_lock\<close> and waits on the
  condition variable; \<^verbatim>\<open>wait_for\<close> gives the mutex up while it waits and holds it
  again when it returns. The list gives, for each wait in turn, how it ends: \<open>StopNotified\<close>
  when \<open>stop\<close> has set the flag (the predicate is true and the loop breaks), \<open>TimedOut\<close>
  when the interval has passed without a stop, with the live data of that moment; then
  \<open>update_metrics\<close> is called, the \<^verbatim>\<open>unique_lock\<close> still holding the mutex, which it
  releases at the end of the pass. With no wait left to end, the thread is still waiting.
\<close>

datatype wait_outcome = StopNotified | TimedOut live_source

datatype run_result = Returns OtelExporter | Fails failure | Waiting OtelExporter

fun run :: "wait_outcome list \<Rightarrow> OtelExporter \<Rightarrow> run_result" where
  "run [] e = (if should_stop e then Returns e else Waiting e)"
| "run (w # rest) e =
     (if should_stop e then Returns e
      else (case mutex_lock MetricsThread (metrics_mutex e) of
              Inl f \<Rightarrow> Fails f
            | Inr held \<Rightarrow>
                (case w of
                   StopNotified \<Rightarrow> Returns (e\<lparr>should_stop := True\<rparr>)
                 | TimedOut src \<Rightarrow>
                     (case update_metrics MetricsThread src (e\<lparr>metrics_mutex := held\<rparr>) of
                        Inl f \<Rightarrow> Fails f
                      | Inr e1 \<Rightarrow> run rest (e1\<lparr>metrics_mutex := None\<rparr>)))))"

text \<open>
  The snapshot that a sample takes from the live data, in the words of the specification:
  every field comes from outside, none from the snapshot before.
\<close>

definition snapshot_of :: "live_source \<Rightarrow> string \<Rightarrow> MetricsData" where
  "snapshot_of src api =
     \<lparr>fps = log_fps (currentLogData src),
      frametime = log_frametime (currentLogData src),
      cpu_load = log_cpu_load (currentLogData src),
      cpu_power = log_cpu_power (currentLogData src),
      cpu_mhz = log_cpu_mhz (currentLogData src),
      cpu_temp = log_cpu_temp (currentLogData src),
      gpu_load = float_of_int (log_gpu_load (currentLogData src)),
      gpu_temp = log_gpu_temp (currentLogData src),
      gpu_core_clock = log_gpu_core_clock (currentLogData src),
      gpu_mem_clock = log_gpu_mem_clock (currentLogData src),
      gpu_power = log_gpu_power (currentLogData src),
      gpu_vram_used = log_gpu_vram_used (currentLogData src),
      ram_used = log_ram_used (currentLogData src),
      swap_used = log_swap_used (currentLogData src),
      process_rss = log_process_rss (currentLogData src),
      process_name = program_name src,
      graphics_api = api,
      process_pid = current_pid src,
      timestamp = steady_now src\<rparr>"

section \<open>The sampler thread beside the exporter\<close>

text \<open>
  What the shared state is after a wait of the sampler thread has timed out, by what
  \<open>run\<close> does in that pass: when the pass ends in the thread locking the mutex it holds,
  the thread stays blocked there, holding the mutex; when it has to wait for another
  thread's lock, nothing has changed yet.
\<close>

definition sampler_wait_times_out :: "live_source \<Rightarrow> OtelExporter \<Rightarrow> OtelExporter" where
  "sampler_wait_times_out src e =
     (if metrics_thread e = Joinable Run Running
      then (case run [TimedOut src] e of
              Returns e1 \<Rightarrow> e1
            | Waiting e1 \<Rightarrow> e1
            | Fails f \<Rightarrow>
                if f = SelfDeadlock
                then e\<lparr>metrics_mutex := Some MetricsThread,
                       metrics_thread := Joinable Run Blocked\<rparr>
                else e)
      else e)"

text \<open>
  The listener serving a connection it has accepted: when its render has to wait for the
  mutex that the blocked sampler holds, it waits for ever.
\<close>

definition listener_serves :: "int \<Rightarrow> client_socket \<Rightarrow> OtelExporter \<Rightarrow> OtelExporter" where
  "listener_serves now client e =
     (if server_thread e = Joinable Start_delay_timer Running
         \<and> handle_metrics_request ServerThread now client e = Inl (HeldBy MetricsThread)
         \<and> metrics_thread e = Joinable Run Blocked
      then e\<lparr>server_thread := Joinable Start_delay_timer Blocked\<rparr>
      else e)"

fun sampler_waits :: "live_source list \<Rightarrow> OtelExporter \<Rightarrow> OtelExporter" where
  "sampler_waits [] e = e"
| "sampler_waits (src # rest) e = sampler_waits rest (sampler_wait_times_out src e)"

text \<open>
  An exporter whose two tasks are running, and a number of cycles, each of them the waits
  of the sampler that time out while the exporter runs, then a \<open>stop\<close> (with the
  listener's late handle, if any), then a \<open>start\<close>.
\<close>

definition running :: "OtelExporter \<Rightarrow> bool" where
  "running e =
     (server_thread e = Joinable Start_delay_timer Running
      \<and> metrics_thread e = Joinable Run Running \<and> \<not> should_stop e)"

fun restart_cycles :: "(live_source list \<times> int option) list \<Rightarrow> OtelExporter \<Rightarrow> OtelExporter option" where
  "restart_cycles [] e = Some e"
| "restart_cycles (c # cs) e =
     (case stop (snd c) (sampler_waits (fst c) e) of
        None \<Rightarrow> None
      | Some e1 \<Rightarrow> (case start e1 of Inl _ \<Rightarrow> None | Inr e2 \<Rightarrow> restart_cycles cs e2))"

section \<open>Sample states\<close>

text \<open>
  An enabled configuration, the exporter the constructor builds from it, and the snapshot
  of the specification's example: 60 frames per second, a frame time of 16.667 ms and a
  CPU load of 23.4 percent (the nearest \<^verbatim>\<open>float\<close> values), process "game", API
  "vulkan", process id 1234.
\<close>

definition sample_params :: overlay_params where
  "sample_params =
     \<lparr>otel_enabled = True, otel_port = ''127.0.0.1:9100'', otel_start_timeout = 0,
      otel_update_interval = 1000\<rparr>"

definition sample_exporter :: OtelExporter where
  "sample_exporter =
     \<lparr>params = sample_params, enabled = True, should_stop = False,
      server_thread = NotJoinable, metrics_thread = NotJoinable,
      metrics_mutex = None, server_socket = - 1, metrics_updated = False,
      bind_address = ''127.0.0.1'', bind_port = 9100,
      current_metrics = default_metrics,
      log = [(Info, ''OpenTelemetry exporter initialized on 127.0.0.1:9100'')]\<rparr>"

definition game_metrics :: MetricsData where
  "game_metrics =
     default_metrics\<lparr>fps := Finite False 60 0, frametime := Finite False 8738308 (- 19),
       cpu_load := Finite False 12268339 (- 19), process_name := ''game'',
       graphics_api := ''vulkan'', process_pid := 1234\<rparr>"

definition game_exporter :: OtelExporter where
  "game_exporter = sample_exporter\<lparr>current_metrics := game_metrics\<rparr>"

text \<open>
  The exporter after \<open>start\<close>, and live data of a Vulkan game: engine index 2 in a table
  of eleven names.
\<close>

definition started_exporter :: OtelExporter where
  "started_exporter =
     sample_exporter\<lparr>server_thread := Joinable Start_delay_timer Running,
                     metrics_thread := Joinable Run Running\<rparr>"

definition sample_source :: live_source where
  "sample_source =
     \<lparr>currentLogData =
        \<lparr>log_fps = Finite False 60 0, log_frametime = Finite False 8738308 (- 19),
         log_cpu_load = Finite False 12268339 (- 19), log_cpu_power = Finite False 45 0,
         log_cpu_mhz = 4200, log_cpu_temp = 61, log_gpu_load = 97, log_gpu_temp = 70,
         log_gpu_core_clock = 1900, log_gpu_mem_clock = 7000,
         log_gpu_power = Finite False 180 0, log_gpu_vram_used = Finite False 5 (- 1),
         log_ram_used = Finite False 8 0, log_swap_used = Finite False 0 0,
         log_process_rss = Finite False 3 (- 1)\<rparr>,
      program_name = ''game'', current_pid = 1234, sw_stats_engine = Some 2,
      engines = [''Unknown'', ''OpenGL'', ''VULKAN'', ''DXVK'', ''VKD3D'', ''DAMAVAND'',
                 ''ZINK'', ''WINED3D'', ''Feral3D'', ''ToGL'', ''GAMESCOPE''],
      steady_now = 5000\<rparr>"

section \<open>Properties of the escaper\<close>

lemma escape_loop_acc: "escape_loop acc cs = acc @ concat (map escaped_form cs)"
  by (induction cs arbitrary: acc) (simp_all add: escaped_form_def)

lemma escape_label_value_concat: "escape_label_value v = concat (map escaped_form v)"
  by (simp add: escape_label_value_def escape_loop_acc)

lemma escaped_form_not_control:
  "LF \<notin> set (escaped_form c)" "CR \<notin> set (escaped_form c)" "TAB \<notin> set (escaped_form c)"
  by (simp_all add: escaped_form_def)

lemma escape_no_control:
  "LF \<notin> set (escape_label_value v)" "CR \<notin> set (escape_label_value v)"
  "TAB \<notin> set (escape_label_value v)"
  by (simp_all add: escape_label_value_concat escaped_form_not_control)

lemma escaped_ok_prepend: "escaped_ok (escaped_form c @ rest) = escaped_ok rest"
  by (cases rest) (simp_all add: escaped_form_def)

lemma escaped_ok_concat: "escaped_ok (concat (map escaped_form v))"
  by (induction v) (simp_all add: escaped_ok_prepend)

lemma unescape_prepend:
  "unescape (escaped_form c @ rest) = map_option ((#) c) (unescape rest)"
  by (cases rest) (auto simp add: escaped_form_def)

lemma unescape_concat: "unescape (concat (map escaped_form v)) = Some v"
  by (induction v) (simp_all add: unescape_prepend)

text \<open>
  Claim C5. The label escaper is defined on every string; it replaces backslash, double
  quote, newline, carriage return and tab by their two-byte escaped forms and copies every
  other byte. Hence a left-to-right scan of its output finds no raw double quote, no
  backslash that does not start an escape pair, and no raw newline, carriage return or
  tab; the output contains none of these three control bytes at all, and it can be read
  back to the input.
\<close>

theorem escape_label_value_total_and_clean:
  "escape_label_value v = concat (map escaped_form v)
   \<and> escaped_form BSL = [BSL, BSL]
   \<and> escaped_form DQ = [BSL, DQ]
   \<and> escaped_form LF = [BSL, CHR ''n'']
   \<and> escaped_form CR = [BSL, CHR ''r'']
   \<and> escaped_form TAB = [BSL, CHR ''t'']
   \<and> (if c = BSL \<or> c = DQ \<or> c = LF \<or> c = CR \<or> c = TAB then length (escaped_form c) = 2
       else escaped_form c = [c])
   \<and> escaped_ok (escape_label_value v)
   \<and> LF \<notin> set (escape_label_value v)
   \<and> CR \<notin> set (escape_label_value v)
   \<and> TAB \<notin> set (escape_label_value v)
   \<and> unescape (escape_label_value v) = Some v"
proof -
  have tbl: "escaped_form BSL = [BSL, BSL]" "escaped_form DQ = [BSL, DQ]"
    "escaped_form LF = [BSL, CHR ''n'']" "escaped_form CR = [BSL, CHR ''r'']"
    "escaped_form TAB = [BSL, CHR ''t'']"
    by (simp_all add: escaped_form_def)
  have other: "if c = BSL \<or> c = DQ \<or> c = LF \<or> c = CR \<or> c = TAB
               then length (escaped_form c) = 2 else escaped_form c = [c]"
    by (simp add: escaped_form_def)
  have ok: "escaped_ok (escape_label_value v)"
    by (simp add: escape_label_value_concat escaped_ok_concat)
  have rt: "unescape (escape_label_value v) = Some v"
    by (simp add: escape_label_value_concat unescape_concat)
  from tbl other ok rt escape_label_value_concat [of v] escape_no_control [of v]
  show ?thesis by blast
qed

theorem escape_label_value_total_and_clean_witness:
  "escape_label_value [CHR ''a'', DQ, BSL, LF, CR, TAB, CHR ''z'']
     = [CHR ''a'', BSL, DQ, BSL, BSL, BSL, CHR ''n'', BSL, CHR ''r'', BSL, CHR ''t'', CHR ''z'']
   \<and> escaped_ok (escape_label_value [CHR ''a'', DQ, BSL, LF, CR, TAB, CHR ''z''])
   \<and> unescape (escape_label_value [CHR ''a'', DQ, BSL, LF, CR, TAB, CHR ''z''])
       = Some [CHR ''a'', DQ, BSL, LF, CR, TAB, CHR ''z'']"
  using escape_label_value_total_and_clean
          [of "[CHR ''a'', DQ, BSL, LF, CR, TAB, CHR ''z'']" "CHR ''a''"]
  by (simp add: escaped_form_def)

section \<open>Properties of the renderer\<close>

subsection \<open>Printed numbers and lines\<close>

lemma digit_char_decimal: "digit_char d \<in> decimal_digits"
  unfolding digit_char_def decimal_digits_def by (rule nth_mem) simp

lemma to_string_nat_decimal: "set (to_string_nat n) \<subseteq> decimal_digits"
proof (induction n rule: to_string_nat.induct)
  case (1 n)
  show ?case
  proof (cases "n < 10")
    case True
    then show ?thesis by (simp add: to_string_nat.simps [of n] digit_char_decimal)
  next
    case False
    with "1" show ?thesis by (simp add: to_string_nat.simps [of n] digit_char_decimal)
  qed
qed

lemma to_string_nat_nonempty: "to_string_nat n \<noteq> []"
  by (simp add: to_string_nat.simps [of n])

lemma LF_not_decimal: "LF \<notin> decimal_digits"
  by (simp add: decimal_digits_def)

lemma to_string_nat_no_LF: "LF \<notin> set (to_string_nat n)"
  using to_string_nat_decimal [of n] LF_not_decimal by blast

lemma to_string_no_LF: "LF \<notin> set (to_string i)"
  by (simp add: to_string_def to_string_nat_no_LF)

lemma put_fixed_no_LF: "LF \<notin> set (put_fixed p x)"
  by (cases x) (simp_all add: put_fixed_def Let_def zero_pad_def to_string_nat_no_LF)

lemma label_set_no_LF: "LF \<notin> set (label_set cm)"
  by (simp add: label_set_def escape_no_control to_string_no_LF)

lemma lines_from_line:
  "LF \<notin> set l \<Longrightarrow> lines_from cur (l @ LF # rest) = (cur @ l) # lines_from [] rest"
  by (induction l arbitrary: cur) auto

lemma split_lines_unlines:
  "\<forall>l \<in> set ls. LF \<notin> set l \<Longrightarrow> split_lines (unlines ls) = ls"
  unfolding split_lines_def unlines_def
  by (induction ls) (simp_all add: lines_from_line)

lemma generate_metrics_stanzas:
  "metrics_mutex e = None \<Longrightarrow>
   generate_metrics self now e =
     Inr (unlines (concat (map (stanza (label_set (current_metrics e)) (to_string now))
                               (metric_families (current_metrics e)))))"
  by (simp add: generate_metrics_def mutex_lock_def Let_def unlines_def stanza_def
        metric_families_def label_set_def)

lemma stanza_no_LF:
  assumes "LF \<notin> set labels" "LF \<notin> set ts" "LF \<notin> set name" "LF \<notin> set description"
    "LF \<notin> set printed"
  shows "\<forall>l \<in> set (stanza labels ts (name, description, printed)). LF \<notin> set l"
  using assms by (simp add: stanza_def)

lemma metric_families_no_LF:
  "\<forall>fam \<in> set (metric_families cm).
     LF \<notin> set (fst fam) \<and> LF \<notin> set (fst (snd fam)) \<and> LF \<notin> set (snd (snd fam))"
  by (simp add: metric_families_def put_fixed_no_LF to_string_no_LF)

lemma document_lines_no_LF:
  "\<forall>l \<in> set (concat (map (stanza (label_set cm) (to_string now)) (metric_families cm))).
     LF \<notin> set l"
proof -
  have "\<forall>l \<in> set (stanza (label_set cm) (to_string now) fam). LF \<notin> set l"
    if "fam \<in> set (metric_families cm)" for fam
  proof -
    obtain name description printed where fam: "fam = (name, description, printed)"
      by (cases fam) auto
    from that metric_families_no_LF [of cm] fam
    have "LF \<notin> set name" "LF \<notin> set description" "LF \<notin> set printed" by auto
    with label_set_no_LF [of cm] to_string_no_LF [of now] show ?thesis
      unfolding fam by (intro stanza_no_LF)
  qed
  then show ?thesis by auto
qed

lemma generate_metrics_lines:
  assumes "metrics_mutex e = None"
  shows "\<exists>doc. generate_metrics self now e = Inr doc
           \<and> doc = unlines (split_lines doc)
           \<and> split_lines doc = concat (map (stanza (label_set (current_metrics e)) (to_string now))
                                          (metric_families (current_metrics e)))"
  using generate_metrics_stanzas [OF assms, of self now]
    split_lines_unlines [OF document_lines_no_LF, of "current_metrics e" now]
  by simp

lemma metric_family_names:
  "map fst (metric_families cm) =
     [''mangohud_fps_current'', ''mangohud_frametime_ms'', ''mangohud_cpu_load_percent'',
      ''mangohud_cpu_power_watts'', ''mangohud_cpu_frequency_mhz'',
      ''mangohud_cpu_temperature_celsius'', ''mangohud_gpu_load_percent'',
      ''mangohud_gpu_temperature_celsius'', ''mangohud_gpu_core_clock_mhz'',
      ''mangohud_gpu_memory_clock_mhz'', ''mangohud_gpu_power_watts'',
      ''mangohud_gpu_vram_used_gb'', ''mangohud_ram_used_gb'', ''mangohud_swap_used_gb'',
      ''mangohud_process_rss_gb'']"
  by (simp add: metric_families_def)

lemma metric_families_length: "length (metric_families cm) = 15"
  by (simp add: metric_families_def)

text \<open>
  Claim C2. For every snapshot, a render that gets the lock returns a document of exactly
  45 newline-terminated lines: the stanzas of the fifteen metrics in the fixed order
  fps, frame time, CPU load, CPU power, CPU frequency, CPU temperature, GPU load,
  GPU temperature, GPU core clock, GPU memory clock, GPU power, VRAM, RAM, swap, process
  RSS. A stanza is the HELP line, the TYPE line with "gauge" and one sample line; every
  sample line carries the same label set and the same timestamp, the one read for this
  call.
\<close>

theorem generate_metrics_fifteen_stanzas:
  "metrics_mutex e = None \<Longrightarrow>
   (\<exists>doc. generate_metrics self now e = Inr doc
      \<and> doc = unlines (split_lines doc)
      \<and> split_lines doc =
          concat (map (stanza (label_set (current_metrics e)) (to_string now))
                      (metric_families (current_metrics e)))
      \<and> length (split_lines doc) = 45)
   \<and> length (metric_families (current_metrics e)) = 15
   \<and> map fst (metric_families (current_metrics e)) =
       [''mangohud_fps_current'', ''mangohud_frametime_ms'', ''mangohud_cpu_load_percent'',
        ''mangohud_cpu_power_watts'', ''mangohud_cpu_frequency_mhz'',
        ''mangohud_cpu_temperature_celsius'', ''mangohud_gpu_load_percent'',
        ''mangohud_gpu_temperature_celsius'', ''mangohud_gpu_core_clock_mhz'',
        ''mangohud_gpu_memory_clock_mhz'', ''mangohud_gpu_power_watts'',
        ''mangohud_gpu_vram_used_gb'', ''mangohud_ram_used_gb'', ''mangohud_swap_used_gb'',
        ''mangohud_process_rss_gb'']"
proof -
  assume free: "metrics_mutex e = None"
  let ?ls = "concat (map (stanza (label_set (current_metrics e)) (to_string now))
                         (metric_families (current_metrics e)))"
  from generate_metrics_lines [OF free, of self now] obtain doc where
    doc: "generate_metrics self now e = Inr doc" "doc = unlines (split_lines doc)"
         "split_lines doc = ?ls"
    by blast
  have "length ?ls = 45"
    by (simp add: metric_families_def stanza_def)
  with doc have "\<exists>doc. generate_metrics self now e = Inr doc
      \<and> doc = unlines (split_lines doc) \<and> split_lines doc = ?ls \<and> length (split_lines doc) = 45"
    by simp
  with metric_families_length [of "current_metrics e"] metric_family_names [of "current_metrics e"]
  show ?thesis by blast
qed

theorem generate_metrics_fifteen_stanzas_witness:
  "metrics_mutex game_exporter = None
   \<and> (\<exists>doc. generate_metrics ServerThread 1700000000123 game_exporter = Inr doc
        \<and> length (split_lines doc) = 45
        \<and> take 2 (split_lines doc) =
            [''# HELP mangohud_fps_current Current frames per second'',
             ''# TYPE mangohud_fps_current gauge''])"
proof -
  have free: "metrics_mutex game_exporter = None"
    by (simp add: game_exporter_def sample_exporter_def)
  from generate_metrics_fifteen_stanzas [OF free, of ServerThread 1700000000123]
  obtain doc where doc: "generate_metrics ServerThread 1700000000123 game_exporter = Inr doc"
    "split_lines doc =
       concat (map (stanza (label_set (current_metrics game_exporter)) (to_string 1700000000123))
                   (metric_families (current_metrics game_exporter)))"
    "length (split_lines doc) = 45"
    by blast
  have "take 2 (split_lines doc) =
            [''# HELP mangohud_fps_current Current frames per second'',
             ''# TYPE mangohud_fps_current gauge'']"
    unfolding doc(2) by (simp add: metric_families_def stanza_def)
  with free doc show ?thesis by blast
qed

subsection \<open>Precision of the printed values\<close>

lemma to_string_nat_length: "0 < p \<Longrightarrow> n < 10 ^ p \<Longrightarrow> length (to_string_nat n) \<le> p"
proof (induction n arbitrary: p rule: to_string_nat.induct)
  case (1 n)
  show ?case
  proof (cases "n < 10")
    case True
    with "1.prems" show ?thesis by (simp add: to_string_nat.simps [of n])
  next
    case False
    with "1.prems" have p1: "1 < p"
      by (cases "p = 1") auto
    then obtain q where q: "p = Suc q" "0 < q" by (cases p) auto
    from "1.prems" q have "n div 10 < 10 ^ q"
      by (simp add: less_mult_imp_div_less mult.commute)
    with "1.IH" [OF False \<open>0 < q\<close>] have "length (to_string_nat (n div 10)) \<le> q" .
    with False q show ?thesis by (simp add: to_string_nat.simps [of n])
  qed
qed

lemma zero_pad_length: "length s \<le> p \<Longrightarrow> length (zero_pad p s) = p"
  by (simp add: zero_pad_def)

lemma zero_pad_decimal: "set s \<subseteq> decimal_digits \<Longrightarrow> set (zero_pad p s) \<subseteq> decimal_digits"
  by (auto simp add: zero_pad_def decimal_digits_def)

lemma put_fixed_finite_shape:
  assumes "0 < p"
  shows "\<exists>ip fr. put_fixed p (Finite neg m ex) = (if neg then ''-'' else []) @ ip @ ''.'' @ fr
            \<and> ip \<noteq> [] \<and> set ip \<subseteq> decimal_digits \<and> length fr = p \<and> set fr \<subseteq> decimal_digits"
proof -
  let ?v = "scaled_magnitude p m ex"
  have "?v mod 10 ^ p < 10 ^ p" by simp
  then have len: "length (zero_pad p (to_string_nat (?v mod 10 ^ p))) = p"
    using assms by (intro zero_pad_length to_string_nat_length)
  show ?thesis
    apply (rule exI [of _ "to_string_nat (?v div 10 ^ p)"])
    apply (rule exI [of _ "zero_pad p (to_string_nat (?v mod 10 ^ p))"])
    using assms len
    by (simp add: put_fixed_def Let_def to_string_nat_nonempty to_string_nat_decimal zero_pad_decimal)
qed

lemma to_string_shape: "to_string i = (if i < 0 then ''-'' else []) @ to_string_nat (nat \<bar>i\<bar>)"
  by (simp add: to_string_def)

lemma put_fixed_60: "put_fixed 2 (Finite False 60 0) = ''60.00''"
  by (simp add: put_fixed_def scaled_magnitude_def to_string_nat.simps zero_pad_def digit_char_def)

lemma to_string_1234: "to_string 1234 = ''1234''"
  by (simp add: to_string_def to_string_nat.simps digit_char_def)

lemma escape_game: "escape_label_value ''game'' = ''game''" "escape_label_value ''vulkan'' = ''vulkan''"
  by (simp_all add: escape_label_value_def)

lemma sample_lines_of_families:
  "sample_lines (concat (map (stanza labels ts) (metric_families cm))) =
     map (\<lambda>(name, printed). name @ ''{'' @ labels @ ''} '' @ printed @ '' '' @ ts)
       [(''mangohud_fps_current'', put_fixed 2 (fps cm)),
        (''mangohud_frametime_ms'', put_fixed 3 (frametime cm)),
        (''mangohud_cpu_load_percent'', put_fixed 1 (cpu_load cm)),
        (''mangohud_cpu_power_watts'', put_fixed 1 (cpu_power cm)),
        (''mangohud_cpu_frequency_mhz'', to_string (cpu_mhz cm)),
        (''mangohud_cpu_temperature_celsius'', to_string (cpu_temp cm)),
        (''mangohud_gpu_load_percent'', put_fixed 1 (gpu_load cm)),
        (''mangohud_gpu_temperature_celsius'', to_string (gpu_temp cm)),
        (''mangohud_gpu_core_clock_mhz'', to_string (gpu_core_clock cm)),
        (''mangohud_gpu_memory_clock_mhz'', to_string (gpu_mem_clock cm)),
        (''mangohud_gpu_power_watts'', put_fixed 1 (gpu_power cm)),
        (''mangohud_gpu_vram_used_gb'', put_fixed 3 (gpu_vram_used cm)),
        (''mangohud_ram_used_gb'', put_fixed 3 (ram_used cm)),
        (''mangohud_swap_used_gb'', put_fixed 3 (swap_used cm)),
        (''mangohud_process_rss_gb'', put_fixed 3 (process_rss cm))]"
  by (simp add: metric_families_def stanza_def)

lemma first_stanza_game:
  assumes "fps cm = Finite False 60 0" "process_name cm = ''game''"
    "graphics_api cm = ''vulkan''" "process_pid cm = 1234"
  shows "take 3 (concat (map (stanza (label_set cm) ts) (metric_families cm))) =
           [''# HELP mangohud_fps_current Current frames per second'',
            ''# TYPE mangohud_fps_current gauge'',
            ''mangohud_fps_current{process_name='' @ [DQ] @ ''game'' @ [DQ]
              @ '',graphics_api='' @ [DQ] @ ''vulkan'' @ [DQ] @ '',pid='' @ [DQ] @ ''1234'' @ [DQ]
              @ ''} 60.00 '' @ ts]"
  using assms
  by (simp add: metric_families_def stanza_def label_set_def put_fixed_60 to_string_1234 escape_game)

text \<open>
  Claim C6. The sample lines of a rendered document print frames per second with
  precision 2, frame time, VRAM, RAM, swap and process RSS with precision 3, the load
  percentages and the power values with precision 1, and the CPU frequency, the
  temperatures and the clocks as integers. A finite value printed with precision
  \<open>p > 0\<close> has exactly \<open>p\<close> digits after the point, and an integer is printed as its
  digits behind an optional minus sign. For a snapshot with 60 frames per second, process
  "game", API "vulkan" and process id 1234 the document starts with the HELP line and the
  TYPE line of \<open>mangohud_fps_current\<close>, and right after them the sample line with the
  three labels and the value 60.00, followed by the timestamp.
\<close>

theorem generate_metrics_fps_line_and_precisions:
  "metrics_mutex e = None \<Longrightarrow>
   (\<exists>doc. generate_metrics self now e = Inr doc
      \<and> sample_lines (split_lines doc) =
          map (\<lambda>(name, printed).
                 name @ ''{'' @ label_set (current_metrics e) @ ''} '' @ printed @ '' '' @ to_string now)
            [(''mangohud_fps_current'', put_fixed 2 (fps (current_metrics e))),
             (''mangohud_frametime_ms'', put_fixed 3 (frametime (current_metrics e))),
             (''mangohud_cpu_load_percent'', put_fixed 1 (cpu_load (current_metrics e))),
             (''mangohud_cpu_power_watts'', put_fixed 1 (cpu_power (current_metrics e))),
             (''mangohud_cpu_frequency_mhz'', to_string (cpu_mhz (current_metrics e))),
             (''mangohud_cpu_temperature_celsius'', to_string (cpu_temp (current_metrics e))),
             (''mangohud_gpu_load_percent'', put_fixed 1 (gpu_load (current_metrics e))),
             (''mangohud_gpu_temperature_celsius'', to_string (gpu_temp (current_metrics e))),
             (''mangohud_gpu_core_clock_mhz'', to_string (gpu_core_clock (current_metrics e))),
             (''mangohud_gpu_memory_clock_mhz'', to_string (gpu_mem_clock (current_metrics e))),
             (''mangohud_gpu_power_watts'', put_fixed 1 (gpu_power (current_metrics e))),
             (''mangohud_gpu_vram_used_gb'', put_fixed 3 (gpu_vram_used (current_metrics e))),
             (''mangohud_ram_used_gb'', put_fixed 3 (ram_used (current_metrics e))),
             (''mangohud_swap_used_gb'', put_fixed 3 (swap_used (current_metrics e))),
             (''mangohud_process_rss_gb'', put_fixed 3 (process_rss (current_metrics e)))]
      \<and> (fps (current_metrics e) = Finite False 60 0
           \<and> process_name (current_metrics e) = ''game''
           \<and> graphics_api (current_metrics e) = ''vulkan''
           \<and> process_pid (current_metrics e) = 1234 \<longrightarrow>
          take 3 (split_lines doc) =
            [''# HELP mangohud_fps_current Current frames per second'',
             ''# TYPE mangohud_fps_current gauge'',
             ''mangohud_fps_current{process_name='' @ [DQ] @ ''game'' @ [DQ]
               @ '',graphics_api='' @ [DQ] @ ''vulkan'' @ [DQ] @ '',pid='' @ [DQ] @ ''1234'' @ [DQ]
               @ ''} 60.00 '' @ to_string now]))
   \<and> (0 < p \<longrightarrow>
        (\<exists>ip fr. put_fixed p (Finite neg m ex) = (if neg then ''-'' else []) @ ip @ ''.'' @ fr
           \<and> ip \<noteq> [] \<and> set ip \<subseteq> decimal_digits
           \<and> length fr = p \<and> set fr \<subseteq> decimal_digits))
   \<and> to_string i = (if i < 0 then ''-'' else []) @ to_string_nat (nat \<bar>i\<bar>)
   \<and> to_string_nat n \<noteq> [] \<and> set (to_string_nat n) \<subseteq> decimal_digits"
proof -
  assume free: "metrics_mutex e = None"
  let ?cm = "current_metrics e"
  from generate_metrics_lines [OF free, of self now] obtain doc where
    doc: "generate_metrics self now e = Inr doc"
         "split_lines doc = concat (map (stanza (label_set ?cm) (to_string now)) (metric_families ?cm))"
    by blast
  note a = doc(1)
  note b = sample_lines_of_families [of "label_set ?cm" "to_string now" ?cm, folded doc(2)]
  have c: "fps ?cm = Finite False 60 0 \<and> process_name ?cm = ''game''
           \<and> graphics_api ?cm = ''vulkan'' \<and> process_pid ?cm = 1234 \<longrightarrow>
          take 3 (split_lines doc) =
            [''# HELP mangohud_fps_current Current frames per second'',
             ''# TYPE mangohud_fps_current gauge'',
             ''mangohud_fps_current{process_name='' @ [DQ] @ ''game'' @ [DQ]
               @ '',graphics_api='' @ [DQ] @ ''vulkan'' @ [DQ] @ '',pid='' @ [DQ] @ ''1234'' @ [DQ]
               @ ''} 60.00 '' @ to_string now]"
    unfolding doc(2) using first_stanza_game [of ?cm "to_string now"] by blast
  have d: "0 < p \<longrightarrow>
        (\<exists>ip fr. put_fixed p (Finite neg m ex) = (if neg then ''-'' else []) @ ip @ ''.'' @ fr
           \<and> ip \<noteq> [] \<and> set ip \<subseteq> decimal_digits
           \<and> length fr = p \<and> set fr \<subseteq> decimal_digits)"
    using put_fixed_finite_shape [of p neg m ex] by blast
  from a b c have abc: "\<exists>doc. generate_metrics self now e = Inr doc
      \<and> sample_lines (split_lines doc) =
          map (\<lambda>(name, printed).
                 name @ ''{'' @ label_set (current_metrics e) @ ''} '' @ printed @ '' '' @ to_string now)
            [(''mangohud_fps_current'', put_fixed 2 (fps (current_metrics e))),
             (''mangohud_frametime_ms'', put_fixed 3 (frametime (current_metrics e))),
             (''mangohud_cpu_load_percent'', put_fixed 1 (cpu_load (current_metrics e))),
             (''mangohud_cpu_power_watts'', put_fixed 1 (cpu_power (current_metrics e))),
             (''mangohud_cpu_frequency_mhz'', to_string (cpu_mhz (current_metrics e))),
             (''mangohud_cpu_temperature_celsius'', to_string (cpu_temp (current_metrics e))),
             (''mangohud_gpu_load_percent'', put_fixed 1 (gpu_load (current_metrics e))),
             (''mangohud_gpu_temperature_celsius'', to_string (gpu_temp (current_metrics e))),
             (''mangohud_gpu_core_clock_mhz'', to_string (gpu_core_clock (current_metrics e))),
             (''mangohud_gpu_memory_clock_mhz'', to_string (gpu_mem_clock (current_metrics e))),
             (''mangohud_gpu_power_watts'', put_fixed 1 (gpu_power (current_metrics e))),
             (''mangohud_gpu_vram_used_gb'', put_fixed 3 (gpu_vram_used (current_metrics e))),
             (''mangohud_ram_used_gb'', put_fixed 3 (ram_used (current_metrics e))),
             (''mangohud_swap_used_gb'', put_fixed 3 (swap_used (current_metrics e))),
             (''mangohud_process_rss_gb'', put_fixed 3 (process_rss (current_metrics e)))]
      \<and> (fps (current_metrics e) = Finite False 60 0
           \<and> process_name (current_metrics e) = ''game''
           \<and> graphics_api (current_metrics e) = ''vulkan''
           \<and> process_pid (current_metrics e) = 1234 \<longrightarrow>
          take 3 (split_lines doc) =
            [''# HELP mangohud_fps_current Current frames per second'',
             ''# TYPE mangohud_fps_current gauge'',
             ''mangohud_fps_current{process_name='' @ [DQ] @ ''game'' @ [DQ]
               @ '',graphics_api='' @ [DQ] @ ''vulkan'' @ [DQ] @ '',pid='' @ [DQ] @ ''1234'' @ [DQ]
               @ ''} 60.00 '' @ to_string now])"
    by (intro exI [of _ doc] conjI)
  from abc d to_string_shape [of i] to_string_nat_nonempty [of n] to_string_nat_decimal [of n]
  show ?thesis by (intro conjI)
qed

theorem generate_metrics_fps_line_and_precisions_witness:
  "metrics_mutex game_exporter = None
   \<and> (0::nat) < 2
   \<and> (\<exists>doc. generate_metrics ServerThread 1700000000123 game_exporter = Inr doc
        \<and> take 3 (split_lines doc) =
            [''# HELP mangohud_fps_current Current frames per second'',
             ''# TYPE mangohud_fps_current gauge'',
             ''mangohud_fps_current{process_name='' @ [DQ] @ ''game'' @ [DQ]
               @ '',graphics_api='' @ [DQ] @ ''vulkan'' @ [DQ] @ '',pid='' @ [DQ] @ ''1234'' @ [DQ]
               @ ''} 60.00 1700000000123''])
   \<and> put_fixed 2 (Finite False 60 0) = ''60.00''
   \<and> put_fixed 3 (frametime game_metrics) = ''16.667''
   \<and> put_fixed 1 (cpu_load game_metrics) = ''23.4''"
proof -
  have free: "metrics_mutex game_exporter = None"
    by (simp add: game_exporter_def sample_exporter_def)
  have game: "fps (current_metrics game_exporter) = Finite False 60 0
           \<and> process_name (current_metrics game_exporter) = ''game''
           \<and> graphics_api (current_metrics game_exporter) = ''vulkan''
           \<and> process_pid (current_metrics game_exporter) = 1234"
    by (simp add: game_exporter_def game_metrics_def default_metrics_def)
  have ts: "to_string 1700000000123 = ''1700000000123''"
    by (simp add: to_string_def to_string_nat.simps digit_char_def)
  from generate_metrics_fps_line_and_precisions
         [OF free, of ServerThread 1700000000123 2 False 60 0 1234 45] game
  obtain doc where doc: "generate_metrics ServerThread 1700000000123 game_exporter = Inr doc"
    "take 3 (split_lines doc) =
            [''# HELP mangohud_fps_current Current frames per second'',
             ''# TYPE mangohud_fps_current gauge'',
             ''mangohud_fps_current{process_name='' @ [DQ] @ ''game'' @ [DQ]
               @ '',graphics_api='' @ [DQ] @ ''vulkan'' @ [DQ] @ '',pid='' @ [DQ] @ ''1234'' @ [DQ]
               @ ''} 60.00 '' @ to_string 1700000000123]"
    by blast
  have p2: "put_fixed 2 (Finite False 60 0) = ''60.00''"
    by (simp add: put_fixed_def scaled_magnitude_def to_string_nat.simps zero_pad_def digit_char_def)
  have sm3: "scaled_magnitude 3 8738308 (- 19) = 16667"
    by (simp add: scaled_magnitude_def round_half_even_div_def Let_def)
  have sm1: "scaled_magnitude (Suc 0) 12268339 (- 19) = 234"
    by (simp add: scaled_magnitude_def round_half_even_div_def Let_def)
  have p3: "put_fixed 3 (frametime game_metrics) = ''16.667''"
    by (simp add: game_metrics_def default_metrics_def put_fixed_def sm3
          to_string_nat.simps zero_pad_def digit_char_def)
  have p1: "put_fixed 1 (cpu_load game_metrics) = ''23.4''"
    by (simp add: game_metrics_def default_metrics_def put_fixed_def sm1
          to_string_nat.simps zero_pad_def digit_char_def)
  from doc(2) have "take 3 (split_lines doc) =
            [''# HELP mangohud_fps_current Current frames per second'',
             ''# TYPE mangohud_fps_current gauge'',
             ''mangohud_fps_current{process_name='' @ [DQ] @ ''game'' @ [DQ]
               @ '',graphics_api='' @ [DQ] @ ''vulkan'' @ [DQ] @ '',pid='' @ [DQ] @ ''1234'' @ [DQ]
               @ ''} 60.00 1700000000123'']"
    unfolding ts by simp
  moreover have "(0::nat) < 2" by simp
  ultimately show ?thesis using free doc(1) p1 p2 p3 by blast
qed

section \<open>Properties of the bind-address resolver\<close>

lemma takeWhile_upto: "c \<notin> set h \<Longrightarrow> takeWhile (\<lambda>x. x \<noteq> c) (h @ c # p) = h"
  by (induction h) auto

lemma takeWhile_whole: "c \<notin> set s \<Longrightarrow> takeWhile (\<lambda>x. x \<noteq> c) s = s"
  by (induction s) auto

lemma find_char_first:
  "c \<notin> set h \<Longrightarrow> find_char (h @ c # p) c = Some (length h)"
  by (simp add: find_char_def takeWhile_upto)

lemma find_char_none: "c \<notin> set s \<Longrightarrow> find_char s c = None"
  by (simp add: find_char_def takeWhile_whole)

lemma uint_port: "valid_port n \<Longrightarrow> uint (word_of_int n :: 16 word) = n"
  by (simp add: valid_port_def uint_word_of_int take_bit_int_eq_self)

lemma try_port_address: "bind_address (try_port t e) = bind_address e"
  by (simp add: try_port_def spdlog_def split: sum.splits)

lemma try_port_port:
  "uint (bind_port (try_port t e)) =
     (case stoi t of Inl _ \<Rightarrow> 16969 | Inr n \<Rightarrow> if valid_port n then n else 16969)"
  by (auto simp add: try_port_def spdlog_def uint_port valid_port_def split: sum.splits)

lemma bind_target_with_colon:
  "CHR '':'' \<notin> set h \<Longrightarrow>
   bind_target (parse_bind_address (h @ CHR '':'' # p) e) =
     Some (h, case stoi p of Inl _ \<Rightarrow> 16969 | Inr n \<Rightarrow> if valid_port n then n else 16969)"
  by (simp add: parse_bind_address_def find_char_first substr_def bind_target_def spdlog_def
        try_port_address try_port_port)

lemma bind_target_without_colon:
  "CHR '':'' \<notin> set a \<Longrightarrow>
   bind_target (parse_bind_address a e) =
     Some (''0.0.0.0'', case stoi a of Inl _ \<Rightarrow> 16969 | Inr n \<Rightarrow> if valid_port n then n else 16969)"
  by (simp add: parse_bind_address_def find_char_none bind_target_def spdlog_def
        try_port_address try_port_port)

lemma split_at_first:
  assumes "c \<in> set s"
  shows "\<exists>p. s = takeWhile (\<lambda>x. x \<noteq> c) s @ c # p"
proof -
  from assms have ne: "dropWhile (\<lambda>x. x \<noteq> c) s \<noteq> []" by (simp add: dropWhile_eq_Nil_conv)
  then have "hd (dropWhile (\<lambda>x. x \<noteq> c) s) = c" using hd_dropWhile [OF ne] by simp
  with ne have "dropWhile (\<lambda>x. x \<noteq> c) s = c # tl (dropWhile (\<lambda>x. x \<noteq> c) s)"
    by (cases "dropWhile (\<lambda>x. x \<noteq> c) s") auto
  then have "s = takeWhile (\<lambda>x. x \<noteq> c) s @ c # tl (dropWhile (\<lambda>x. x \<noteq> c) s)"
    using takeWhile_dropWhile_id [of "\<lambda>x. x \<noteq> c" s] by simp
  then show ?thesis by blast
qed

lemma takeWhile_no_c: "c \<notin> set (takeWhile (\<lambda>x. x \<noteq> c) s)"
  by (induction s) auto

lemma port_choice_valid:
  "valid_port (case r of Inl _ \<Rightarrow> 16969 | Inr n \<Rightarrow> if valid_port n then n else 16969)"
  by (simp add: valid_port_def split: sum.splits)

lemma bind_target_total:
  "\<exists>a n. bind_target (parse_bind_address input e) = Some (a, n) \<and> valid_port n
     \<and> a = (if CHR '':'' \<in> set input then takeWhile (\<lambda>c. c \<noteq> CHR '':'') input else ''0.0.0.0'')"
proof (cases "CHR '':'' \<in> set input")
  case True
  from split_at_first [OF True] obtain p where
    p: "input = takeWhile (\<lambda>c. c \<noteq> CHR '':'') input @ CHR '':'' # p" by blast
  let ?h = "takeWhile (\<lambda>c. c \<noteq> CHR '':'') input"
  have "bind_target (parse_bind_address (?h @ CHR '':'' # p) e) =
     Some (?h, case stoi p of Inl _ \<Rightarrow> 16969 | Inr n \<Rightarrow> if valid_port n then n else 16969)"
    by (rule bind_target_with_colon) (rule takeWhile_no_c)
  with p have "bind_target (parse_bind_address input e) =
     Some (?h, case stoi p of Inl _ \<Rightarrow> 16969 | Inr n \<Rightarrow> if valid_port n then n else 16969)"
    by simp
  with True port_choice_valid [of "stoi p"] show ?thesis by simp
next
  case False
  with bind_target_without_colon [of input e] port_choice_valid [of "stoi input"]
  show ?thesis by simp
qed

lemma numeric_not_space: "isdigit c \<Longrightarrow> \<not> isspace c"
  by (auto simp add: isdigit_def isspace_def decimal_digits_def)

lemma numeric_not_sign: "isdigit c \<Longrightarrow> c \<noteq> CHR ''-'' \<and> c \<noteq> CHR ''+''"
  by (auto simp add: isdigit_def decimal_digits_def)

lemma takeWhile_digits:
  "list_all isdigit ds \<Longrightarrow> junk = [] \<or> \<not> isdigit (hd junk) \<Longrightarrow> takeWhile isdigit (ds @ junk) = ds"
  by (induction ds) (auto simp add: takeWhile_eq_Nil_iff)

lemma stoi_ignores_junk:
  assumes "numeric ds" "junk = [] \<or> \<not> isdigit (hd junk)"
  shows "stoi (ds @ junk) = stoi ds"
proof -
  from assms(1) obtain d ds' where ds: "ds = d # ds'" "isdigit d" "list_all isdigit ds'"
    by (cases ds) (auto simp add: numeric_def)
  have all: "list_all isdigit ds" using ds by simp
  have tw: "takeWhile isdigit (ds @ junk) = ds" "takeWhile isdigit ds = ds"
    using takeWhile_digits [OF all assms(2)] takeWhile_digits [OF all, of "[]"] by simp_all
  have dw: "dropWhile isspace (ds @ junk) = ds @ junk" "dropWhile isspace ds = ds"
    using ds numeric_not_space by simp_all
  have hd: "hd (ds @ junk) = d" "hd ds = d" using ds by simp_all
  show ?thesis
    unfolding stoi_def dw Let_def hd using numeric_not_sign [OF ds(2)] tw ds(1)
    by simp
qed

lemma inet_pton_examples:
  "inet_pton_AF_INET ''127.0.0.1''" "inet_pton_AF_INET ''0.0.0.0''"
  "inet_pton_AF_INET ''192.168.1.255''"
  "\<not> inet_pton_AF_INET ''localhost''" "\<not> inet_pton_AF_INET ''256.0.0.1''"
  "\<not> inet_pton_AF_INET ''1.2.3''" "\<not> inet_pton_AF_INET ''1.2.3.4.5''"
  "\<not> inet_pton_AF_INET ''01.2.3.4''" "\<not> inet_pton_AF_INET []"
  by (simp_all add: inet_pton_AF_INET_def isdigit_def decimal_digits_def digit_value_def)

lemma stoi_examples:
  "stoi ''9100'' = Inr 9100" "stoi ''8080'' = Inr 8080" "stoi ''80abc'' = Inr 80"
  "stoi ''80'' = Inr 80" "stoi '' +443'' = Inr 443"
  "stoi ''abc'' = Inl Invalid_argument" "stoi [] = Inl Invalid_argument"
  "stoi ''70000'' = Inr 70000" "stoi ''-5'' = Inr (- 5)" "stoi ''0'' = Inr 0"
  "stoi ''99999999999'' = Inl Out_of_range"
  by (simp_all add: stoi_def isspace_def isdigit_def decimal_digits_def
        digits_value_def digit_value_def Let_def)

text \<open>
  Claim C3. An input "host:port" (the host being the text before the first colon) whose
  port text parses to an integer in [1, 65535] resolves to exactly that host and that
  port; an input without a colon that parses to such an integer resolves to the address
  "0.0.0.0" and that port.
\<close>

theorem parse_bind_address_valid:
  "(CHR '':'' \<notin> set host \<and> stoi port_str = Inr n \<and> valid_port n \<longrightarrow>
      bind_target (parse_bind_address (host @ '':'' @ port_str) e) = Some (host, n))
   \<and> (CHR '':'' \<notin> set address \<and> stoi address = Inr k \<and> valid_port k \<longrightarrow>
      bind_target (parse_bind_address address e) = Some (''0.0.0.0'', k))"
  using bind_target_with_colon [of host port_str e] bind_target_without_colon [of address e]
  by simp

theorem parse_bind_address_valid_witness:
  "CHR '':'' \<notin> set ''127.0.0.1'' \<and> stoi ''9100'' = Inr 9100 \<and> valid_port 9100
   \<and> bind_target (parse_bind_address ''127.0.0.1:9100'' sample_exporter) = Some (''127.0.0.1'', 9100)
   \<and> CHR '':'' \<notin> set ''8080'' \<and> stoi ''8080'' = Inr 8080 \<and> valid_port 8080
   \<and> bind_target (parse_bind_address ''8080'' sample_exporter) = Some (''0.0.0.0'', 8080)"
  using parse_bind_address_valid [of "''127.0.0.1''" "''9100''" 9100 sample_exporter "''8080''" 8080]
  by (simp add: stoi_examples valid_port_def)

text \<open>
  Claim C4, as stated, fails twice. A port text that is not a number, such as "80abc",
  still resolves to its leading integer and not to 16969; and the address is taken as it
  stands, so that ":80" resolves to the empty address, which the listener cannot use.
\<close>

theorem parse_bind_address_default_port_counterexample:
  "\<not> numeric ''80abc''
   \<and> bind_target (parse_bind_address ''127.0.0.1:80abc'' sample_exporter) = Some (''127.0.0.1'', 80)
   \<and> bind_target (parse_bind_address '':80'' sample_exporter) = Some ([], 80)
   \<and> \<not> inet_pton_AF_INET []"
  using bind_target_with_colon [of "''127.0.0.1''" "''80abc''" sample_exporter]
    bind_target_with_colon [of "[]" "''80''" sample_exporter]
  by (simp add: stoi_examples valid_port_def inet_pton_examples numeric_def isdigit_def
        decimal_digits_def)

text \<open>
  Claim C4, amended. When \<^verbatim>\<open>std::stoi\<close> finds no integer at the start of the port text
  (after white space and a sign), or finds one outside [1, 65535] or outside the range of
  \<^verbatim>\<open>int\<close>, the resolver yields port 16969. Bytes after a leading integer are ignored.
  The resolver never ends in an exception; it always yields a port in [1, 65535] and, as
  the address, the text before the first colon, or "0.0.0.0" when there is no colon.
\<close>

theorem parse_bind_address_default_port:
  "(CHR '':'' \<notin> set host \<and> (\<forall>n. stoi port_str = Inr n \<longrightarrow> \<not> valid_port n) \<longrightarrow>
      bind_target (parse_bind_address (host @ '':'' @ port_str) e) = Some (host, 16969))
   \<and> (CHR '':'' \<notin> set address \<and> (\<forall>n. stoi address = Inr n \<longrightarrow> \<not> valid_port n) \<longrightarrow>
      bind_target (parse_bind_address address e) = Some (''0.0.0.0'', 16969))
   \<and> (numeric ds \<and> (junk = [] \<or> \<not> isdigit (hd junk)) \<longrightarrow> stoi (ds @ junk) = stoi ds)
   \<and> (\<exists>a n. bind_target (parse_bind_address input e) = Some (a, n) \<and> valid_port n
         \<and> a = (if CHR '':'' \<in> set input then takeWhile (\<lambda>c. c \<noteq> CHR '':'') input
                else ''0.0.0.0''))"
proof -
  have a: "bind_target (parse_bind_address (host @ '':'' @ port_str) e) = Some (host, 16969)"
    if "CHR '':'' \<notin> set host" "\<forall>n. stoi port_str = Inr n \<longrightarrow> \<not> valid_port n"
    using that bind_target_with_colon [of host port_str e] by (simp split: sum.splits)
  have b: "bind_target (parse_bind_address address e) = Some (''0.0.0.0'', 16969)"
    if "CHR '':'' \<notin> set address" "\<forall>n. stoi address = Inr n \<longrightarrow> \<not> valid_port n"
    using that bind_target_without_colon [of address e] by (simp split: sum.splits)
  from a b stoi_ignores_junk [of ds junk] bind_target_total [of input e]
  show ?thesis by blast
qed

theorem parse_bind_address_default_port_witness:
  "CHR '':'' \<notin> set ''host'' \<and> stoi ''abc'' = Inl Invalid_argument
   \<and> bind_target (parse_bind_address ''host:abc'' sample_exporter) = Some (''host'', 16969)
   \<and> CHR '':'' \<notin> set ''70000'' \<and> stoi ''70000'' = Inr 70000 \<and> \<not> valid_port 70000
   \<and> bind_target (parse_bind_address ''70000'' sample_exporter) = Some (''0.0.0.0'', 16969)
   \<and> numeric ''80'' \<and> \<not> isdigit (hd ''abc'') \<and> stoi ''80abc'' = stoi ''80''
   \<and> (\<exists>a n. bind_target (parse_bind_address ''host:abc'' sample_exporter) = Some (a, n)
         \<and> valid_port n \<and> a = ''host'')"
  using parse_bind_address_default_port
          [of "''host''" "''abc''" sample_exporter "''70000''" "''80''" "''abc''" "''host:abc''"]
  by (simp add: stoi_examples valid_port_def numeric_def isdigit_def decimal_digits_def)

section \<open>Properties of the sampler\<close>

subsection \<open>A pass of the sampler loop\<close>

lemma mutex_lock_held: "mutex_lock self (Some self) = Inl SelfDeadlock"
  by (simp add: mutex_lock_def)

lemma mutex_lock_free: "mutex_lock self None = Inr (Some self)"
  by (simp add: mutex_lock_def)

lemma update_metrics_relock:
  "metrics_mutex e = Some self \<Longrightarrow> update_metrics self src e = Inl SelfDeadlock"
  by (simp add: update_metrics_def mutex_lock_held)

lemma run_timed_out_fails:
  assumes "\<not> should_stop e"
  shows "run (TimedOut src # rest) e =
           Fails (case metrics_mutex e of
                    None \<Rightarrow> SelfDeadlock
                  | Some t \<Rightarrow> if t = MetricsThread then SelfDeadlock else HeldBy t)"
proof (cases "metrics_mutex e")
  case None
  then show ?thesis using assms
    by (simp add: mutex_lock_free update_metrics_relock)
next
  case (Some t)
  then show ?thesis using assms by (simp add: mutex_lock_def)
qed

lemma run_never_samples:
  assumes "\<not> should_stop e"
  shows "run (TimedOut src # rest) e \<noteq> Returns e1" "run (TimedOut src # rest) e \<noteq> Waiting e1"
  using run_timed_out_fails [OF assms, of src rest] by simp_all

lemma update_metrics_snapshot:
  assumes "metrics_mutex e = None"
  shows "update_metrics self src e =
           (case sw_stats_engine src of
              None \<Rightarrow> Inr (e\<lparr>current_metrics := snapshot_of src ''unknown'', metrics_updated := True\<rparr>)
            | Some i \<Rightarrow>
                if 18 \<le> i
                then Inr (e\<lparr>current_metrics := snapshot_of src ''unknown'', metrics_updated := True\<rparr>)
                else if i < length (engines src)
                then Inr (e\<lparr>current_metrics := snapshot_of src (engines src ! i),
                           metrics_updated := True\<rparr>)
                else Inl OutOfBounds)"
  using assms
  by (simp add: update_metrics_def mutex_lock_free snapshot_of_def Let_def split: option.splits)

lemma run_stop_notified:
  "run (StopNotified # rest) e =
     (if should_stop e then Returns e
      else (case mutex_lock MetricsThread (metrics_mutex e) of
              Inl f \<Rightarrow> Fails f
            | Inr _ \<Rightarrow> Returns (e\<lparr>should_stop := True\<rparr>)))"
  by (simp split: sum.splits)

lemma sampler_wait_times_out_eq:
  "sampler_wait_times_out src e =
     (if metrics_thread e = Joinable Run Running \<and> \<not> should_stop e
         \<and> (metrics_mutex e = None \<or> metrics_mutex e = Some MetricsThread)
      then e\<lparr>metrics_mutex := Some MetricsThread, metrics_thread := Joinable Run Blocked\<rparr>
      else e)"
proof (cases "should_stop e")
  case True
  then show ?thesis by (simp add: sampler_wait_times_out_def)
next
  case False
  from run_timed_out_fails [OF False, of src "[]"] show ?thesis
    using False by (auto simp add: sampler_wait_times_out_def split: option.splits)
qed

lemma sampler_wait_times_out_started:
  "sampler_wait_times_out src started_exporter =
     started_exporter\<lparr>metrics_mutex := Some MetricsThread,
                      metrics_thread := Joinable Run Blocked\<rparr>"
  by (simp add: sampler_wait_times_out_eq started_exporter_def sample_exporter_def)

subsection \<open>The cast to float\<close>

lemma bit_length_0: "bit_length 0 = 0"
  by (simp add: bit_length.simps)

lemma bit_length_bound: "n < 2 ^ k \<Longrightarrow> bit_length n \<le> k"
proof (induction k arbitrary: n)
  case 0
  then show ?case by (simp add: bit_length_0)
next
  case (Suc k)
  show ?case
  proof (cases "n = 0")
    case True
    then show ?thesis by (simp add: bit_length_0)
  next
    case False
    from Suc.prems have "n div 2 < 2 ^ k" by simp
    from Suc.IH [OF this] False show ?thesis by (simp add: bit_length.simps [of n])
  qed
qed

lemma float_of_int_small:
  assumes "\<bar>i\<bar> < 2 ^ 24"
  shows "float_of_int i = Finite (i < 0) (nat \<bar>i\<bar>) 0"
proof -
  from assms have "nat \<bar>i\<bar> < 2 ^ 24" by simp
  from bit_length_bound [OF this] show ?thesis
    by (simp add: float_of_int_def round_half_even_div_def)
qed

lemma bit_length_16777217: "bit_length 16777217 = 25" "bit_length 16777219 = 25"
  by (simp_all add: bit_length.simps)

lemma float_of_int_rounds:
  "float_of_int 16777217 = Finite False 8388608 1"
  "float_of_int 16777219 = Finite False 8388610 1"
  by (simp_all add: float_of_int_def bit_length_16777217 round_half_even_div_def)

lemma float_of_int_97: "float_of_int 97 = Finite False 97 0"
  using float_of_int_small [of 97] by simp

subsection \<open>The blocked sampler\<close>

text \<open>
  What follows from a sampler that is blocked in the second lock of the mutex, holding
  it: a render by the listener waits for the mutex, and \<open>stop\<close> does not return from
  joining the sampler.
\<close>

lemma blocked_sampler_holds_up_render:
  "metrics_mutex e = Some MetricsThread \<Longrightarrow>
   generate_metrics ServerThread now e = Inl (HeldBy MetricsThread)"
  by (simp add: generate_metrics_def mutex_lock_def)

lemma blocked_sampler_holds_up_stop:
  "metrics_thread e = Joinable Run Blocked \<Longrightarrow> stop late e = None"
  by (simp add: stop_def join_if_joinable_def Let_def split: option.splits)

text \<open>
  Claim C7 says that a sampler tick takes the snapshot mutex exactly once, the loop not
  holding it when the update locks it. The code does otherwise: the loop of \<open>run\<close> holds
  the mutex through its \<^verbatim>\<open>unique_lock\<close> when it calls \<open>update_metrics\<close>, whose
  \<^verbatim>\<open>lock_guard\<close> locks the same mutex again. On a started exporter the first wait that
  times out ends in that second lock and no field is written, whereas the same update
  called with the mutex free overwrites the whole snapshot from the live data.
\<close>

theorem run_tick_relocks_mutex:
  "\<not> should_stop started_exporter
   \<and> metrics_mutex started_exporter = None
   \<and> run [TimedOut sample_source] started_exporter = Fails SelfDeadlock
   \<and> update_metrics MetricsThread sample_source
        (started_exporter\<lparr>metrics_mutex := Some MetricsThread\<rparr>) = Inl SelfDeadlock
   \<and> update_metrics HostThread sample_source started_exporter =
        Inr (started_exporter\<lparr>current_metrics := snapshot_of sample_source ''VULKAN'',
                               metrics_updated := True\<rparr>)"
proof -
  have a: "\<not> should_stop started_exporter" "metrics_mutex started_exporter = None"
    by (simp_all add: started_exporter_def sample_exporter_def)
  have b: "run [TimedOut sample_source] started_exporter = Fails SelfDeadlock"
    using run_timed_out_fails [OF a(1), of sample_source "[]"] a(2) by simp
  have c: "update_metrics MetricsThread sample_source
        (started_exporter\<lparr>metrics_mutex := Some MetricsThread\<rparr>) = Inl SelfDeadlock"
    by (rule update_metrics_relock) simp
  have d: "update_metrics HostThread sample_source started_exporter =
        Inr (started_exporter\<lparr>current_metrics := snapshot_of sample_source ''VULKAN'',
                               metrics_updated := True\<rparr>)"
    using update_metrics_snapshot [OF a(2), of HostThread sample_source]
    by (simp add: sample_source_def)
  from a b c d show ?thesis by blast
qed

lemma update_metrics_graphics_api:
  assumes "metrics_mutex e = None"
  shows "sw_stats_engine src = None \<or> (\<exists>i. sw_stats_engine src = Some i \<and> 18 \<le> i) \<Longrightarrow>
           update_metrics self src e =
             Inr (e\<lparr>current_metrics := snapshot_of src ''unknown'', metrics_updated := True\<rparr>)"
    and "sw_stats_engine src = Some k \<Longrightarrow> k < 18 \<Longrightarrow> k < length (engines src) \<Longrightarrow>
           update_metrics self src e =
             Inr (e\<lparr>current_metrics := snapshot_of src (engines src ! k),
                    metrics_updated := True\<rparr>)"
    and "sw_stats_engine src = Some k \<Longrightarrow> k < 18 \<Longrightarrow> length (engines src) \<le> k \<Longrightarrow>
           update_metrics self src e = Inl OutOfBounds"
  using update_metrics_snapshot [OF assms, of self src] by auto

lemma snapshot_of_graphics_api: "graphics_api (snapshot_of src api) = api"
  by (simp add: snapshot_of_def)

text \<open>
  Claim C9 says that every sampler tick derives the graphics API name anew, and sets it to
  "unknown" when the index source is absent or the index is out of range, rather than
  failing. \<open>update_metrics\<close> does so when it gets the mutex. A tick of the sampler loop
  never gets that far: it fails in the second lock of the mutex before the index is read,
  whatever the index source is, and the field \<open>graphics_api\<close> stays what it was (empty
  on a fresh exporter).
\<close>

theorem sampler_tick_never_derives_graphics_api:
  "run [TimedOut (sample_source\<lparr>sw_stats_engine := None\<rparr>)] started_exporter = Fails SelfDeadlock
   \<and> run [TimedOut (sample_source\<lparr>sw_stats_engine := Some 18\<rparr>)] started_exporter
       = Fails SelfDeadlock
   \<and> graphics_api (current_metrics
        (sampler_wait_times_out (sample_source\<lparr>sw_stats_engine := None\<rparr>) started_exporter)) = []
   \<and> update_metrics HostThread (sample_source\<lparr>sw_stats_engine := None\<rparr>) started_exporter =
        Inr (started_exporter
               \<lparr>current_metrics := snapshot_of (sample_source\<lparr>sw_stats_engine := None\<rparr>) ''unknown'',
                metrics_updated := True\<rparr>)
   \<and> graphics_api (snapshot_of (sample_source\<lparr>sw_stats_engine := None\<rparr>) ''unknown'') = ''unknown''"
proof -
  have s: "\<not> should_stop started_exporter" and f: "metrics_mutex started_exporter = None"
    by (simp_all add: started_exporter_def sample_exporter_def)
  have a: "run [TimedOut src] started_exporter = Fails SelfDeadlock" for src
    using run_timed_out_fails [OF s, of src "[]"] f by simp
  have b: "graphics_api (current_metrics
        (sampler_wait_times_out (sample_source\<lparr>sw_stats_engine := None\<rparr>) started_exporter)) = []"
    by (simp add: sampler_wait_times_out_started)
       (simp add: started_exporter_def sample_exporter_def default_metrics_def)
  have c: "update_metrics HostThread (sample_source\<lparr>sw_stats_engine := None\<rparr>) started_exporter =
        Inr (started_exporter
               \<lparr>current_metrics := snapshot_of (sample_source\<lparr>sw_stats_engine := None\<rparr>) ''unknown'',
                metrics_updated := True\<rparr>)"
    by (rule update_metrics_graphics_api (1) [OF f]) simp
  from a b c snapshot_of_graphics_api show ?thesis by blast
qed

section \<open>Properties of the request handler\<close>

lemma strstr_prefix: "strstr (needle @ rest) needle = Some 0"
proof (cases "needle @ rest")
  case Nil
  then show ?thesis by simp
next
  case (Cons h hs)
  have "take (length needle) (needle @ rest) = needle" by simp
  then show ?thesis unfolding Cons by simp
qed

lemma c_str_get_metrics:
  "c_str (take 1023 (''GET /metrics'' @ rest) @ [NUL]) = ''GET /metrics'' @ c_str (take 1011 rest @ [NUL])"
  by (simp add: c_str_def)

lemma handle_no_bytes:
  "handle_metrics_request self now RecvFails e = Inr None"
  "handle_metrics_request self now (Delivers []) e = Inr None"
  by (simp_all add: handle_metrics_request_def recv_def)

lemma handle_found:
  assumes "bytes \<noteq> []" "strstr (c_str (take 1023 bytes @ [NUL])) ''GET /metrics'' \<noteq> None"
    "generate_metrics self now e = Inr doc"
  shows "handle_metrics_request self now (Delivers bytes) e =
           Inr (Some (http_response ''200 OK''
                  [(''Content-Type'', ''text/plain; version=0.0.4; charset=utf-8''),
                   (''Content-Length'', to_string_nat (length doc)),
                   (''Connection'', ''close'')] doc))"
  using assms by (simp add: handle_metrics_request_def recv_def http_response_def)

lemma handle_not_found:
  assumes "bytes \<noteq> []" "strstr (c_str (take 1023 bytes @ [NUL])) ''GET /metrics'' = None"
  shows "handle_metrics_request self now (Delivers bytes) e =
           Inr (Some (http_response ''404 Not Found''
                  [(''Content-Length'', ''0''), (''Connection'', ''close'')] []))"
  using assms by (simp add: handle_metrics_request_def recv_def http_response_def)

lemma handle_blocked:
  assumes "bytes \<noteq> []" "strstr (c_str (take 1023 bytes @ [NUL])) ''GET /metrics'' \<noteq> None"
    "generate_metrics self now e = Inl f"
  shows "handle_metrics_request self now (Delivers bytes) e = Inl f"
  using assms by (simp add: handle_metrics_request_def recv_def)

lemma strstr_exact_path:
  "strstr (c_str (take 1023 (''GET /metrics'' @ rest) @ [NUL])) ''GET /metrics'' = Some 0"
  unfolding c_str_get_metrics by (rule strstr_prefix)

lemma strstr_ex1: "strstr (c_str (take 1023 ''GET /metricsfoo HTTP/1.1'' @ [NUL])) ''GET /metrics'' = Some 0"
  by (simp add: c_str_def)

lemma strstr_ex2: "strstr (c_str (take 1023 ''GET /other HTTP/1.1'' @ [NUL])) ''GET /metrics'' = None"
  by (simp add: c_str_def)

lemma strstr_ex3: "strstr (c_str (take 1023 ''POST /x?GET /metrics HTTP/1.1'' @ [NUL])) ''GET /metrics'' = Some 8"
  by (simp add: c_str_def)

lemma status_line_response:
  "CR \<notin> set status \<Longrightarrow>
   status_line (Inr (Some (http_response status hdrs body))) = Some (''HTTP/1.1 '' @ status)"
  by (auto simp add: status_line_def http_response_def takeWhile_tail)

lemma not_found_text:
  "http_response ''404 Not Found'' [(''Content-Length'', ''0''), (''Connection'', ''close'')] [] =
     ''HTTP/1.1 404 Not Found'' @ [CR, LF] @ ''Content-Length: 0'' @ [CR, LF]
     @ ''Connection: close'' @ [CR, LF] @ [CR, LF]"
  by (simp add: http_response_def)

lemma sample_exporter_free: "metrics_mutex sample_exporter = None"
  by (simp add: sample_exporter_def)

lemma started_exporter_free: "metrics_mutex started_exporter = None"
  by (simp add: started_exporter_def sample_exporter_def)

lemma listener_blocked_behind_sampler:
  "server_thread
     (listener_serves 0 (Delivers ''GET /metrics HTTP/1.1'')
        (sampler_wait_times_out sample_source started_exporter))
     = Joinable Start_delay_timer Blocked"
proof -
  let ?e = "sampler_wait_times_out sample_source started_exporter"
  have st: "server_thread ?e = Joinable Start_delay_timer Running"
    "metrics_thread ?e = Joinable Run Blocked" "metrics_mutex ?e = Some MetricsThread"
    unfolding sampler_wait_times_out_started
    by (simp_all add: started_exporter_def sample_exporter_def)
  have "generate_metrics ServerThread 0 ?e = Inl (HeldBy MetricsThread)"
    by (rule blocked_sampler_holds_up_render) (rule st(3))
  then have "handle_metrics_request ServerThread 0 (Delivers ''GET /metrics HTTP/1.1'') ?e
               = Inl (HeldBy MetricsThread)"
    by (intro handle_blocked) (simp_all add: c_str_def)
  with st show ?thesis by (simp add: listener_serves_def)
qed

text \<open>
  Claim C1, as stated, fails in three ways. When the read fails nothing is sent at all; a
  request for another path, or with another method, is answered with 200 as soon as its
  bytes contain the text "GET /metrics"; and a plain GET of /metrics gets no answer when
  the render cannot take the snapshot mutex, as after the sampler's first wait has timed
  out.
\<close>

theorem handle_metrics_request_counterexample:
  "handle_metrics_request ServerThread 0 RecvFails sample_exporter = Inr None
   \<and> status_line (handle_metrics_request ServerThread 0 RecvFails sample_exporter) = None
   \<and> status_line (handle_metrics_request ServerThread 0
         (Delivers ''GET /metricsfoo HTTP/1.1'') sample_exporter) = Some ''HTTP/1.1 200 OK''
   \<and> status_line (handle_metrics_request ServerThread 0
         (Delivers ''POST /x?GET /metrics HTTP/1.1'') sample_exporter) = Some ''HTTP/1.1 200 OK''
   \<and> handle_metrics_request ServerThread 0 (Delivers ''GET /metrics HTTP/1.1'')
         (sampler_wait_times_out sample_source started_exporter) = Inl (HeldBy MetricsThread)
   \<and> status_line (handle_metrics_request ServerThread 0 (Delivers ''GET /metrics HTTP/1.1'')
         (sampler_wait_times_out sample_source started_exporter)) = None"
proof -
  from generate_metrics_stanzas [OF sample_exporter_free, of ServerThread 0]
  obtain doc where doc: "generate_metrics ServerThread 0 sample_exporter = Inr doc" by blast
  have a: "status_line (handle_metrics_request ServerThread 0
         (Delivers ''GET /metricsfoo HTTP/1.1'') sample_exporter) = Some ''HTTP/1.1 200 OK''"
    by (subst handle_found [OF _ _ doc]) (simp_all add: c_str_def status_line_response)
  have b: "status_line (handle_metrics_request ServerThread 0
         (Delivers ''POST /x?GET /metrics HTTP/1.1'') sample_exporter) = Some ''HTTP/1.1 200 OK''"
    by (subst handle_found [OF _ _ doc]) (simp_all add: c_str_def status_line_response)
  have c: "handle_metrics_request ServerThread 0 RecvFails sample_exporter = Inr None"
    by (rule handle_no_bytes)
  then have d: "status_line (handle_metrics_request ServerThread 0 RecvFails sample_exporter) = None"
    by (simp add: status_line_def)
  have "generate_metrics ServerThread 0 (sampler_wait_times_out sample_source started_exporter)
          = Inl (HeldBy MetricsThread)"
    by (rule blocked_sampler_holds_up_render) (simp add: sampler_wait_times_out_started)
  then have e: "handle_metrics_request ServerThread 0 (Delivers ''GET /metrics HTTP/1.1'')
         (sampler_wait_times_out sample_source started_exporter) = Inl (HeldBy MetricsThread)"
    by (intro handle_blocked) (simp_all add: c_str_def)
  then have f: "status_line (handle_metrics_request ServerThread 0 (Delivers ''GET /metrics HTTP/1.1'')
         (sampler_wait_times_out sample_source started_exporter)) = None"
    by (simp add: status_line_def)
  from a b c d e f show ?thesis by blast
qed

text \<open>
  Claim C1, amended. A request that delivers at least one byte and whose first 1023 bytes,
  read up to the first NUL, contain "GET /metrics" anywhere is answered, provided that
  the render gets the snapshot mutex (no thread holds it), with status 200, the content
  type \<open>text/plain; version=0.0.4; charset=utf-8\<close>, a Content-Length equal to the length
  of the body, \<open>Connection: close\<close> and the rendered document as body; every request
  that begins with "GET /metrics" is of that kind. A request that delivers at least one
  byte without that text is answered with 404, \<open>Content-Length: 0\<close>,
  \<open>Connection: close\<close> and an empty body, whoever holds the mutex. When the read fails or
  delivers nothing, nothing is sent.
\<close>

theorem handle_metrics_request_responses:
  "(metrics_mutex e = None \<longrightarrow>
      (\<exists>doc. generate_metrics self now e = Inr doc
         \<and> (bytes \<noteq> [] \<and> strstr (c_str (take 1023 bytes @ [NUL])) ''GET /metrics'' \<noteq> None \<longrightarrow>
              handle_metrics_request self now (Delivers bytes) e =
                Inr (Some (http_response ''200 OK''
                       [(''Content-Type'', ''text/plain; version=0.0.4; charset=utf-8''),
                        (''Content-Length'', to_string_nat (length doc)),
                        (''Connection'', ''close'')] doc)))
         \<and> handle_metrics_request self now (Delivers (''GET /metrics'' @ rest)) e =
                Inr (Some (http_response ''200 OK''
                       [(''Content-Type'', ''text/plain; version=0.0.4; charset=utf-8''),
                        (''Content-Length'', to_string_nat (length doc)),
                        (''Connection'', ''close'')] doc))))
   \<and> (bytes \<noteq> [] \<and> strstr (c_str (take 1023 bytes @ [NUL])) ''GET /metrics'' = None \<longrightarrow>
        handle_metrics_request self now (Delivers bytes) e =
          Inr (Some (http_response ''404 Not Found''
                 [(''Content-Length'', ''0''), (''Connection'', ''close'')] [])))
   \<and> handle_metrics_request self now RecvFails e = Inr None
   \<and> handle_metrics_request self now (Delivers []) e = Inr None"
proof -
  have ok: "\<exists>doc. generate_metrics self now e = Inr doc
         \<and> (bytes \<noteq> [] \<and> strstr (c_str (take 1023 bytes @ [NUL])) ''GET /metrics'' \<noteq> None \<longrightarrow>
              handle_metrics_request self now (Delivers bytes) e =
                Inr (Some (http_response ''200 OK''
                       [(''Content-Type'', ''text/plain; version=0.0.4; charset=utf-8''),
                        (''Content-Length'', to_string_nat (length doc)),
                        (''Connection'', ''close'')] doc)))
         \<and> handle_metrics_request self now (Delivers (''GET /metrics'' @ rest)) e =
                Inr (Some (http_response ''200 OK''
                       [(''Content-Type'', ''text/plain; version=0.0.4; charset=utf-8''),
                        (''Content-Length'', to_string_nat (length doc)),
                        (''Connection'', ''close'')] doc))"
    if free: "metrics_mutex e = None"
  proof -
    from generate_metrics_stanzas [OF free, of self now]
    obtain doc where doc: "generate_metrics self now e = Inr doc" by blast
    have exact: "handle_metrics_request self now (Delivers (''GET /metrics'' @ rest)) e =
             Inr (Some (http_response ''200 OK''
                    [(''Content-Type'', ''text/plain; version=0.0.4; charset=utf-8''),
                     (''Content-Length'', to_string_nat (length doc)),
                     (''Connection'', ''close'')] doc))"
      by (rule handle_found [OF _ _ doc]) (simp_all only: strstr_exact_path, simp_all)
    from doc exact handle_found [OF _ _ doc, of bytes] show ?thesis by blast
  qed
  from ok handle_not_found [of bytes self now e] handle_no_bytes [of self now e]
  show ?thesis by blast
qed

theorem handle_metrics_request_responses_witness:
  "metrics_mutex sample_exporter = None
   \<and> status_line (handle_metrics_request ServerThread 0
         (Delivers ''GET /metrics HTTP/1.1'') sample_exporter) = Some ''HTTP/1.1 200 OK''
   \<and> handle_metrics_request ServerThread 0 (Delivers ''GET /other HTTP/1.1'') sample_exporter =
        Inr (Some (''HTTP/1.1 404 Not Found'' @ [CR, LF] @ ''Content-Length: 0'' @ [CR, LF]
                   @ ''Connection: close'' @ [CR, LF] @ [CR, LF]))"
proof -
  from handle_metrics_request_responses
         [of sample_exporter ServerThread 0 "''GET /other HTTP/1.1''" "'' HTTP/1.1''"]
    sample_exporter_free
  obtain doc where
    ok: "handle_metrics_request ServerThread 0 (Delivers (''GET /metrics'' @ '' HTTP/1.1''))
           sample_exporter =
             Inr (Some (http_response ''200 OK''
                    [(''Content-Type'', ''text/plain; version=0.0.4; charset=utf-8''),
                     (''Content-Length'', to_string_nat (length doc)),
                     (''Connection'', ''close'')] doc))"
    and nf: "''GET /other HTTP/1.1'' \<noteq> []
         \<and> strstr (c_str (take 1023 ''GET /other HTTP/1.1'' @ [NUL])) ''GET /metrics'' = None \<longrightarrow>
        handle_metrics_request ServerThread 0 (Delivers ''GET /other HTTP/1.1'') sample_exporter =
          Inr (Some (http_response ''404 Not Found''
                 [(''Content-Length'', ''0''), (''Connection'', ''close'')] []))"
    by blast
  from ok have a: "status_line (handle_metrics_request ServerThread 0
         (Delivers ''GET /metrics HTTP/1.1'') sample_exporter) = Some ''HTTP/1.1 200 OK''"
    by (simp add: status_line_response)
  from nf strstr_ex2 have b: "handle_metrics_request ServerThread 0
        (Delivers ''GET /other HTTP/1.1'') sample_exporter =
        Inr (Some (''HTTP/1.1 404 Not Found'' @ [CR, LF] @ ''Content-Length: 0'' @ [CR, LF]
                   @ ''Connection: close'' @ [CR, LF] @ [CR, LF]))"
    unfolding not_found_text by simp
  from a b sample_exporter_free show ?thesis by blast
qed

section \<open>Properties of start and stop\<close>

lemma to_string_nat_9100: "to_string_nat 9100 = ''9100''"
  by (simp add: to_string_nat.simps digit_char_def)

lemma new_sample: "new_exporter sample_params w = Inr sample_exporter"
  by (simp add: new_exporter_def sample_params_def sample_exporter_def parse_bind_address_def
      find_char_def substr_def try_port_def stoi_def isspace_def isdigit_def decimal_digits_def
      digits_value_def digit_value_def spdlog_def find_first_not_of_def Let_def
      to_string_nat_9100)

lemma try_port_lifecycle:
  "should_stop (try_port t e) = should_stop e" "server_socket (try_port t e) = server_socket e"
  "server_thread (try_port t e) = server_thread e" "metrics_thread (try_port t e) = metrics_thread e"
  "enabled (try_port t e) = enabled e"
  by (simp_all add: try_port_def spdlog_def split: sum.splits)

lemma parse_bind_address_lifecycle:
  assumes "parse_bind_address a e = Inr e1"
  shows "should_stop e1 = should_stop e \<and> server_socket e1 = server_socket e
         \<and> server_thread e1 = server_thread e \<and> metrics_thread e1 = metrics_thread e
         \<and> enabled e1 = enabled e"
  using assms
  by (auto simp add: parse_bind_address_def substr_def spdlog_def try_port_lifecycle
        split: option.splits if_splits)

lemma new_exporter_idle:
  assumes "new_exporter ps w = Inr e"
  shows "\<not> should_stop e \<and> server_socket e = - 1 \<and> server_thread e = NotJoinable
         \<and> metrics_thread e = NotJoinable \<and> enabled e = otel_enabled ps"
proof (cases "otel_enabled ps")
  case False
  with assms show ?thesis by (auto simp add: new_exporter_def)
next
  case True
  with assms obtain e1 where
    p: "parse_bind_address (otel_port ps)
          \<lparr>params = ps, enabled = otel_enabled ps, should_stop = False,
           server_thread = NotJoinable, metrics_thread = NotJoinable,
           metrics_mutex = None, server_socket = - 1, metrics_updated = False,
           bind_address = [], bind_port = w,
           current_metrics = default_metrics, log = []\<rparr> = Inr e1"
    and e: "e = spdlog Info (''OpenTelemetry exporter initialized on '' @ bind_address e1
                                     @ '':'' @ to_string_nat (unat (bind_port e1))) e1"
    by (auto simp add: new_exporter_def Let_def split: sum.splits)
  from parse_bind_address_lifecycle [OF p] e show ?thesis by (simp add: spdlog_def)
qed

lemma stop_idle:
  assumes "server_thread e = NotJoinable" "metrics_thread e = NotJoinable"
  shows "stop late e = Some (e\<lparr>should_stop := True,
                               server_socket := (if 0 \<le> server_socket e then - 1
                                                 else server_socket e)\<rparr>)"
  using assms by (simp add: stop_def join_if_joinable_def joinable_def Let_def)

lemma stop_result:
  assumes "stop late e = Some e1"
  shows "should_stop e1 \<and> server_thread e1 = NotJoinable \<and> metrics_thread e1 = NotJoinable
         \<and> enabled e1 = enabled e
         \<and> server_socket e1 =
             (if joinable (server_thread e) \<and> late \<noteq> None then the late
              else if 0 \<le> server_socket e then - 1 else server_socket e)"
  using assms
  by (auto simp add: stop_def join_if_joinable_def joinable_def Let_def
        split: option.splits thread_handle.splits thread_status.splits if_splits)

lemma stop_returns:
  assumes "\<forall>ep. server_thread e \<noteq> Joinable ep Blocked"
    "\<forall>ep. metrics_thread e \<noteq> Joinable ep Blocked"
  shows "stop late e \<noteq> None"
  using assms
  by (auto simp add: stop_def join_if_joinable_def Let_def
        split: option.splits thread_handle.splits thread_status.splits)

lemma stop_second:
  assumes "stop late e = Some e1" "- 1 \<le> server_socket e1"
  shows "stop late2 e1 = Some (e1\<lparr>server_socket := - 1\<rparr>)"
proof -
  from stop_result [OF assms(1)] have r: "should_stop e1"
    "server_thread e1 = NotJoinable" "metrics_thread e1 = NotJoinable" by simp_all
  have "e1\<lparr>should_stop := True, server_socket := - 1\<rparr> = e1\<lparr>server_socket := - 1\<rparr>"
    using r(1) by simp
  moreover have "(if 0 \<le> server_socket e1 then - 1 else server_socket e1) = - 1"
    using assms(2) by simp
  ultimately show ?thesis using stop_idle [OF r(2,3), of late2] by simp
qed


lemma start_sample: "start sample_exporter = Inr started_exporter"
  by (simp add: start_def joinable_def started_exporter_def sample_exporter_def)

lemma started_exporter_stop:
  "stop None started_exporter = Some (sample_exporter\<lparr>should_stop := True\<rparr>)"
  "stop (Some 7) started_exporter =
     Some (sample_exporter\<lparr>should_stop := True, server_socket := 7\<rparr>)"
  by (simp_all add: stop_def started_exporter_def sample_exporter_def join_if_joinable_def
        joinable_def)



lemma sampler_waits_stays_blocked:
  "metrics_thread e = Joinable Run Blocked \<Longrightarrow>
   metrics_thread (sampler_waits ticks e) = Joinable Run Blocked"
  by (induction ticks arbitrary: e) (simp_all add: sampler_wait_times_out_eq)

lemma sampler_waits_blocks:
  assumes "running e" "metrics_mutex e = None" "ticks \<noteq> []"
  shows "metrics_thread (sampler_waits ticks e) = Joinable Run Blocked"
proof -
  from assms(3) obtain src rest where t: "ticks = src # rest" by (cases ticks) auto
  from assms(1,2) have "metrics_thread (sampler_wait_times_out src e) = Joinable Run Blocked"
    by (simp add: sampler_wait_times_out_eq running_def)
  from sampler_waits_stays_blocked [OF this] show ?thesis by (simp add: t)
qed

lemma stop_after_timeout:
  assumes "running e" "metrics_mutex e = None" "ticks \<noteq> []"
  shows "stop late (sampler_waits ticks e) = None"
  by (rule blocked_sampler_holds_up_stop) (rule sampler_waits_blocks [OF assms])

lemma restart_cycles_timeout:
  assumes "running e" "metrics_mutex e = None" "fst c \<noteq> []"
  shows "restart_cycles (c # cs) e = None"
  using stop_after_timeout [OF assms] by simp



text \<open>
  Claim C8, as stated, fails twice. A call of \<open>stop\<close> on an exporter that was never
  started sets the stop flag, so the state is not left unchanged. And on a started
  exporter whose sampler has had one wait time out, \<open>stop\<close> does not return, so that two
  calls in succession do not leave the tasks joined.
\<close>

theorem stop_never_started_counterexample:
  "new_exporter sample_params 0 = Inr sample_exporter
   \<and> \<not> should_stop sample_exporter
   \<and> stop None sample_exporter = Some (sample_exporter\<lparr>should_stop := True\<rparr>)
   \<and> stop None sample_exporter \<noteq> Some sample_exporter
   \<and> start sample_exporter = Inr started_exporter
   \<and> stop None (sampler_wait_times_out sample_source started_exporter) = None"
proof -
  have a: "\<not> should_stop sample_exporter" by (simp add: sample_exporter_def)
  have b: "stop None sample_exporter = Some (sample_exporter\<lparr>should_stop := True\<rparr>)"
    by (simp add: stop_def sample_exporter_def join_if_joinable_def joinable_def)
  have "sample_exporter\<lparr>should_stop := True\<rparr> \<noteq> sample_exporter"
    by (simp add: sample_exporter_def)
  with b have c: "stop None sample_exporter \<noteq> Some sample_exporter" by simp
  have d: "stop None (sampler_wait_times_out sample_source started_exporter) = None"
    by (rule blocked_sampler_holds_up_stop) (simp add: sampler_wait_times_out_started)
  from new_sample [of 0] a b c d start_sample show ?thesis by blast
qed

text \<open>
  Claim C8, amended. When a first call of \<open>stop\<close> returns, a second call in succession
  returns as well and leaves the stop flag set, the socket closed (the handle holds no
  descriptor: it is -1, handles being descriptors or -1) and both task handles joined,
  also when the listener had opened its socket too late for the first call to close it.
  A call of \<open>stop\<close> returns whenever neither task is blocked. On an exporter that was never started, \<open>stop\<close>
  returns and sets the stop flag; the socket handle stays -1, both task handles stay not
  joinable, and nothing else changes.
\<close>

theorem stop_idempotent:
  "(stop late e = Some e1 \<longrightarrow>
      (\<exists>e2. stop late2 e1 = Some e2 \<and> should_stop e2 \<and> server_socket e2 < 0
         \<and> (- 1 \<le> server_socket e1 \<longrightarrow> server_socket e2 = - 1)
         \<and> \<not> joinable (server_thread e2) \<and> \<not> joinable (metrics_thread e2)))
   \<and> ((\<forall>ep. server_thread e \<noteq> Joinable ep Blocked)
        \<and> (\<forall>ep. metrics_thread e \<noteq> Joinable ep Blocked) \<longrightarrow>
        stop late e \<noteq> None)
   \<and> (new_exporter ps w = Inr e0 \<longrightarrow>
        stop late e0 = Some (e0\<lparr>should_stop := True\<rparr>) \<and> server_socket e0 = - 1
        \<and> \<not> joinable (server_thread e0) \<and> \<not> joinable (metrics_thread e0))"
proof -
  have a: "\<exists>e2. stop late2 e1 = Some e2 \<and> should_stop e2 \<and> server_socket e2 < 0
         \<and> (- 1 \<le> server_socket e1 \<longrightarrow> server_socket e2 = - 1)
         \<and> \<not> joinable (server_thread e2) \<and> \<not> joinable (metrics_thread e2)"
    if s: "stop late e = Some e1"
  proof -
    from stop_result [OF s] have r: "should_stop e1"
      "server_thread e1 = NotJoinable" "metrics_thread e1 = NotJoinable" by simp_all
    from stop_idle [OF r(2,3), of late2] r show ?thesis
      by (simp add: joinable_def)
  qed
  have b: "stop late e0 = Some (e0\<lparr>should_stop := True\<rparr>) \<and> server_socket e0 = - 1
        \<and> \<not> joinable (server_thread e0) \<and> \<not> joinable (metrics_thread e0)"
    if "new_exporter ps w = Inr e0"
  proof -
    from new_exporter_idle [OF that] have i: "server_socket e0 = - 1"
      "server_thread e0 = NotJoinable" "metrics_thread e0 = NotJoinable" by simp_all
    from stop_idle [OF i(2,3), of late] i show ?thesis by (simp add: joinable_def)
  qed
  from a b stop_returns [of e late] show ?thesis by blast
qed

theorem stop_idempotent_witness:
  "stop (Some 7) started_exporter = Some (sample_exporter\<lparr>should_stop := True, server_socket := 7\<rparr>)
   \<and> stop None (sample_exporter\<lparr>should_stop := True, server_socket := 7\<rparr>)
       = Some (sample_exporter\<lparr>should_stop := True\<rparr>)
   \<and> stop None started_exporter = Some (sample_exporter\<lparr>should_stop := True\<rparr>)
   \<and> new_exporter sample_params 0 = Inr sample_exporter
   \<and> stop None sample_exporter = Some (sample_exporter\<lparr>should_stop := True\<rparr>)"
proof -
  note t = stop_idempotent [of "Some 7" started_exporter
             "sample_exporter\<lparr>should_stop := True, server_socket := 7\<rparr>" None
             sample_params 0 sample_exporter]
  from t started_exporter_stop(2) obtain e2 where
    e2: "stop None (sample_exporter\<lparr>should_stop := True, server_socket := 7\<rparr>) = Some e2"
    by blast
  have "stop None (sample_exporter\<lparr>should_stop := True, server_socket := 7\<rparr>)
       = Some (sample_exporter\<lparr>should_stop := True\<rparr>)"
    by (simp add: stop_def sample_exporter_def join_if_joinable_def joinable_def)
  moreover from t new_sample [of 0]
  have "stop (Some 7) sample_exporter = Some (sample_exporter\<lparr>should_stop := True\<rparr>)"
    by blast
  moreover have "stop None sample_exporter = Some (sample_exporter\<lparr>should_stop := True\<rparr>)"
    by (simp add: stop_def sample_exporter_def join_if_joinable_def joinable_def)
  ultimately show ?thesis using started_exporter_stop new_sample [of 0] by blast
qed



end
